theory Spec2Isabelle
  imports Main
begin

section \<open>Data model (src/types/index.ts)\<close>

text \<open>
  The TypeScript interfaces become records with the interfaces' field names. Several
  interfaces share field names, so a field is written with its record's name where it
  would be ambiguous (\<open>user.userId\<close>). A property declared optional (\<open>?\<close>) or
  nullable (\<open>| null\<close>) is an \<open>option\<close>; a JavaScript number is an \<open>int\<close>.
\<close>

record user =
  userId :: string
  email :: string
  username :: string
  name :: string
  orgId :: int
  departmentId :: int
  authTypeId :: int
  userTypeId :: int
  userStatusId :: int
  createdAt :: string
  updatedAt :: string

record create_user_request =
  email :: string
  username :: string
  name :: string
  password :: string
  orgId :: int
  departmentId :: int
  userTypeId :: int
  userStatusId :: int
  authTypeId :: int

text \<open>\<open>Partial<CreateUserRequest>\<close>, the argument of \<open>updateUser\<close>.\<close>

record partial_create_user_request =
  email :: "string option"
  username :: "string option"
  name :: "string option"
  password :: "string option"
  orgId :: "int option"
  departmentId :: "int option"
  userTypeId :: "int option"
  userStatusId :: "int option"
  authTypeId :: "int option"

record login_request =
  email :: string
  password :: string

record user_info =
  userId :: string
  email :: string
  username :: string
  name :: string
  orgId :: int
  departmentId :: int
  userType :: string
  userStatus :: string

record login_response =
  accessToken :: string
  refreshToken :: string
  tokenType :: string
  expiresIn :: int
  userInfo :: user_info
  loginAt :: string

text \<open>
  The data of a reply to \<open>POST /auth/refresh\<close>. No interface declares it; the fields
  are the two that the session store destructures from it.
\<close>

record refresh_response =
  accessToken :: string
  userInfo :: user_info

record permission =
  permissionId :: string
  permissionName :: string
  resource :: string
  action :: string
  description :: string
  isActive :: bool
  isSystemPermission :: bool
  createdAt :: string
  updatedAt :: string
  createdBy :: "string option"
  updatedBy :: "string option"

record role =
  roleId :: string
  roleName :: string
  description :: string
  orgId :: int
  departmentId :: "int option"
  isActive :: bool
  isSystemRole :: bool
  createdAt :: string
  updatedAt :: string
  createdBy :: "string option"
  updatedBy :: "string option"
  permissions :: "permission list option"
  userCount :: "int option"

record create_role_request =
  roleName :: string
  description :: "string option"
  orgId :: int
  departmentId :: "int option"
  isSystemRole :: "bool option"
  permissionIds :: "string list option"

record create_permission_request =
  permissionName :: string
  resource :: string
  action :: string
  description :: "string option"
  isSystemPermission :: "bool option"

record permission_check_response =
  userId :: string
  resource :: string
  action :: string
  hasPermission :: bool
  grantingRoles :: "string list option"
  reason :: "string option"

subsection \<open>Store states\<close>

text \<open>
  The object that creates the session store has the key \<open>refreshToken\<close> twice: first
  the data field (\<open>refreshToken: null\<close>) and then the action
  (\<open>refreshToken: async () => ...\<close>). The later one wins, so the store has one member
  of that name, and it holds the action until a \<open>set\<close> puts a token or \<open>null\<close> in
  its place. The member is therefore a slot that holds either the action or a value.
\<close>

datatype refresh_slot = RefreshAction | RefreshValue "string option"

record auth_state =
  user :: "user_info option"
  token :: "string option"
  refreshToken :: refresh_slot
  isAuthenticated :: bool
  isLoading :: bool

record user_state =
  users :: "user list"
  currentUser :: "user option"
  isLoading :: bool
  error :: "string option"

record authorization_state =
  roles :: "role list"
  permissions :: "permission list"
  userRoles :: "string \<rightharpoonup> role list"
  userPermissions :: "string \<rightharpoonup> permission list"
  isLoading :: bool
  error :: "string option"

text \<open>
  What the \<open>persist\<close> middleware of the session store writes under the key
  \<open>auth-storage\<close>: the fields that \<open>partialize\<close> selects, as JSON. A function is
  not written to JSON, so while the slot holds the action the entry has no
  \<open>refreshToken\<close>.
\<close>

record persisted_auth =
  user :: "user_info option"
  token :: "string option"
  refreshToken :: "string option"
  isAuthenticated :: bool

section \<open>Requests, replies and errors\<close>

datatype http_method = GET | POST | PUT | DELETE

text \<open>
  The request bodies that the client sends, as they are on the wire. The body of a
  refresh request is \<open>{refreshToken}\<close>; it is the empty object (\<open>RefreshData None\<close>)
  when the property holds a function, which JSON leaves out.
\<close>

datatype request_data =
    NoData
  | LoginData string string
  | LogoutData string
  | RefreshData "string option"
  | CreateUserData create_user_request
  | UpdateUserData partial_create_user_request
  | CreateRoleData create_role_request
  | CreatePermissionData create_permission_request
  | AssignRoleData string string
  | CheckPermissionData string string string

text \<open>
  The request configuration as far as the client uses it: \<open>verb\<close> is the
  configuration's \<open>method\<close>, \<open>authorization\<close> is
  \<open>headers.Authorization\<close> and \<open>retry\<close> is the \<open>_retry\<close> flag that the response
  interceptor sets on a request before it replays it.
\<close>

record request =
  verb :: http_method
  url :: string
  data :: request_data
  authorization :: "string option"
  retry :: bool

text \<open>
  The body of a fulfilled reply, typed by the data it carries. \<open>data\<close> is the
  envelope's \<open>data\<close>, of the type that the store which reads it declares for its state.
  \<open>accessToken\<close> is the top-level property that the response interceptor destructures
  from the reply to its own refresh call; the envelope need not have it.

  Fulfilled replies are taken as well-formed: each has a body, and the body has the data
  of the type that the TypeScript declarations give it (for a login or refresh reply:
  the tokens and the identity). What the code does with a fulfilled reply that lacks
  them is outside this model.
\<close>

record 'd body =
  data :: 'd
  accessToken :: "string option"

text \<open>
  What the network gives back for one request: no response at all (a network error or
  the 30 second timeout; the string is the error's message), a response that the HTTP
  library rejects (a status outside 200..299, and the \<open>error\<close> property of its body if
  there is one), or a response that it fulfils.
\<close>

datatype 'd reply =
    NoResponse string
  | Rejected nat "string option"
  | Fulfilled "'d body"

text \<open>
  The error object of the HTTP library: \<open>response\<close> is absent when the request got no
  response, and otherwise holds \<open>response.status\<close> and \<open>response.data.error\<close>.
\<close>

record axios_error =
  config :: request
  response :: "(nat \<times> string option) option"
  message :: string

datatype error = Axios axios_error | Error string | TypeError string

fun response_status :: "axios_error \<Rightarrow> nat option" where
  "response_status err = map_option fst (response err)"

fun response_data_error :: "error \<Rightarrow> string option" where
  "response_data_error (Axios err) = (case response err of None \<Rightarrow> None | Some (st, e) \<Rightarrow> e)"
| "response_data_error (Error msg) = None"
| "response_data_error (TypeError msg) = None"

text \<open>JavaScript's \<open>a || b\<close> on an optional string: \<open>a\<close> unless it is absent or empty.\<close>

fun or_else :: "string option \<Rightarrow> string \<Rightarrow> string" where
  "or_else None d = d"
| "or_else (Some s) d = (if s = [] then d else s)"

fun show_nat :: "nat \<Rightarrow> string" where
  "show_nat n =
     (if n < 10 then [''0123456789'' ! n]
      else show_nat (n div 10) @ [''0123456789'' ! (n mod 10)])"

definition status_message :: "nat \<Rightarrow> string" where
  "status_message st = ''Request failed with status code '' @ show_nat st"

section \<open>The environment\<close>

text \<open>
  Everything observable that an operation does besides changing a store is appended to
  a trace, in the order in which it happens: a request put on the wire by the client
  instance (\<open>Sent\<close>), the interceptor's own refresh call with the refresh token it
  posts (\<open>Refresh\<close>), notifications, console output, and every \<open>set\<close> of a store with
  the state it leaves.
\<close>

datatype event =
    Sent request
  | Refresh string
  | ToastSuccess string
  | ToastError string
  | ConsoleWarn string error
  | ConsoleError string error
  | SetAuth auth_state
  | SetUsers user_state
  | SetAuthorization authorization_state

text \<open>
  The application state: the three stores, the browser's \<open>localStorage\<close>, the entry
  of the \<open>persist\<close> middleware, \<open>window.location.href\<close>, the state of the backend and
  the trace. Operations run one at a time, each to its end.
\<close>

record 'sv app =
  authStore :: auth_state
  userStore :: user_state
  authorizationStore :: authorization_state
  localStorage :: "string \<rightharpoonup> string"
  authStorage :: "persisted_auth option"
  href :: string
  server :: 'sv
  trace :: "event list"

text \<open>
  The backend is not part of the repository. It is a state machine with one handler
  for each type of reply data; the handler sees the whole request and the backend's
  state, so that any deterministic backend is an instance.
\<close>

type_synonym ('sv, 'd) handler = "'sv \<Rightarrow> request \<Rightarrow> 'd reply \<times> 'sv"

record 'sv backend =
  loginH :: "('sv, login_response) handler"
  refreshH :: "('sv, refresh_response) handler"
  voidH :: "('sv, unit) handler"
  userH :: "('sv, user) handler"
  usersH :: "('sv, user list) handler"
  roleH :: "('sv, role) handler"
  rolesH :: "('sv, role list) handler"
  permissionH :: "('sv, permission) handler"
  permissionsH :: "('sv, permission list) handler"
  checkH :: "('sv, permission_check_response) handler"

definition log :: "event \<Rightarrow> 'sv app \<Rightarrow> 'sv app" where
  "log e a = a\<lparr>trace := trace a @ [e]\<rparr>"

definition getItem :: "string \<Rightarrow> 'sv app \<Rightarrow> string option" where
  "getItem k a = localStorage a k"

definition setItem :: "string \<Rightarrow> string \<Rightarrow> 'sv app \<Rightarrow> 'sv app" where
  "setItem k v a = a\<lparr>localStorage := (localStorage a)(k \<mapsto> v)\<rparr>"

definition removeItem :: "string \<Rightarrow> 'sv app \<Rightarrow> 'sv app" where
  "removeItem k a = a\<lparr>localStorage := (localStorage a)(k := None)\<rparr>"

text \<open>A value read from storage passes \<open>if (value)\<close> when it is present and not empty.\<close>

fun truthy :: "string option \<Rightarrow> bool" where
  "truthy None = False"
| "truthy (Some s) = (s \<noteq> [])"

text \<open>
  How \<open>setItem\<close> and a template literal render an optional string: an absent one is
  written as the text \<open>undefined\<close>.
\<close>

fun js_string :: "string option \<Rightarrow> string" where
  "js_string None = ''undefined''"
| "js_string (Some s) = s"

section \<open>The HTTP client (src/services/api.ts)\<close>

definition baseURL :: string where
  "baseURL = ''/api/v1''"

text \<open>The request interceptor: attach the stored access token, if there is one.\<close>

definition request_interceptor :: "'sv app \<Rightarrow> request \<Rightarrow> request" where
  "request_interceptor a cfg =
     (case getItem ''accessToken'' a of
        None \<Rightarrow> cfg
      | Some tok \<Rightarrow>
          if tok \<noteq> [] then cfg\<lparr>authorization := Some (''Bearer '' @ tok)\<rparr>
          else cfg)"

text \<open>One exchange with the backend, turned into the library's result.\<close>

definition adapter ::
  "('sv, 'd) handler \<Rightarrow> request \<Rightarrow> 'sv app \<Rightarrow> (axios_error + 'd body) \<times> 'sv app" where
  "adapter h cfg a =
     (case h (server a) cfg of
        (NoResponse msg, sv) \<Rightarrow>
          (Inl \<lparr>config = cfg, response = None, message = msg\<rparr>, a\<lparr>server := sv\<rparr>)
      | (Rejected st e, sv) \<Rightarrow>
          (Inl \<lparr>config = cfg, response = Some (st, e), message = status_message st\<rparr>,
           a\<lparr>server := sv\<rparr>)
      | (Fulfilled bd, sv) \<Rightarrow> (Inr bd, a\<lparr>server := sv\<rparr>))"

text \<open>
  \<open>refreshToken(refreshToken)\<close> of the client class: a post with the bare library,
  outside the instance, so without base URL, stored token or interceptors.
\<close>

definition refresh_request :: "string \<Rightarrow> request" where
  "refresh_request rt =
     \<lparr>verb = POST, url = ''/api/v1/auth/refresh'', request.data = RefreshData (Some rt),
      authorization = None, retry = False\<rparr>"

definition api_refreshToken ::
  "'sv backend \<Rightarrow> string \<Rightarrow> 'sv app \<Rightarrow> (axios_error + refresh_response body) \<times> 'sv app" where
  "api_refreshToken b rt a = adapter (refreshH b) (refresh_request rt) (log (Refresh rt) a)"

definition clearTokens :: "'sv app \<Rightarrow> 'sv app" where
  "clearTokens a =
     removeItem ''user'' (removeItem ''refreshToken'' (removeItem ''accessToken'' a))"

text \<open>
  The tail of the response interceptor's error handler (\<open>Handle other errors\<close>): the
  notification that precedes the rejection with the error.
\<close>

definition other_errors :: "axios_error \<Rightarrow> 'sv app \<Rightarrow> 'sv app" where
  "other_errors err a =
     (case response_data_error (Axios err) of
        Some e \<Rightarrow>
          if e \<noteq> [] then log (ToastError e) a
          else if message err \<noteq> [] then log (ToastError (message err)) a
          else a
      | None \<Rightarrow>
          if message err \<noteq> [] then log (ToastError (message err)) a
          else a)"

text \<open>
  A request through the client instance: the request interceptor, the exchange, and
  the response interceptor. The client resolves with the library's response object, of
  which the callers read only \<open>data\<close>, the body; the model returns the body.

  On a 401 for a request not yet flagged, the error handler flags the request and, if
  a refresh token is stored, posts it; with the reply's access token stored and put in
  the header it returns the replay of the request, which runs through the same
  interceptors. The replay's outcome is the handler's outcome: the \<open>try\<close> block returns
  the replay's promise without awaiting it, so the \<open>catch\<close> sees only a failure of the
  refresh call. With no refresh token stored the handler falls through to the tail.

  The flag set on the request stays on the replayed request, so the replay never
  enters the 401 branch again: the recursion is at most one call deep. Setting the
  location is recorded in \<open>href\<close>; the model does not end the run there.
\<close>

function client ::
  "'sv backend \<Rightarrow> ('sv, 'd) handler \<Rightarrow> request \<Rightarrow> 'sv app \<Rightarrow> (error + 'd body) \<times> 'sv app" where
  "client b h cfg0 a0 =
     (let cfg = request_interceptor a0 cfg0 in
      case adapter h cfg (log (Sent cfg) a0) of
        (Inr resp, a1) \<Rightarrow> (Inr resp, a1)
      | (Inl err, a1) \<Rightarrow>
          if response_status err = Some 401 \<and> \<not> retry cfg then
            (let originalRequest = cfg\<lparr>retry := True\<rparr>;
                 err' = err\<lparr>config := originalRequest\<rparr>
             in case getItem ''refreshToken'' a1 of
                  None \<Rightarrow> (Inl (Axios err'), other_errors err' a1)
                | Some rt \<Rightarrow>
                    if rt \<noteq> [] then
                      (case api_refreshToken b rt a1 of
                         (Inr resp, a2) \<Rightarrow>
                           client b h
                             (originalRequest
                                \<lparr>authorization :=
                                   Some (''Bearer '' @ js_string (body.accessToken resp))\<rparr>)
                             (setItem ''accessToken'' (js_string (body.accessToken resp)) a2)
                       | (Inl refreshError, a2) \<Rightarrow>
                           (Inl (Axios refreshError), (clearTokens a2)\<lparr>href := ''/login''\<rparr>))
                    else (Inl (Axios err'), other_errors err' a1))
          else (Inl (Axios err), other_errors err a1))"
  by pat_completeness auto
termination
  by (relation "measure (\<lambda>(b, h, cfg, a). if retry cfg then 0 else 1)")
     (auto simp: request_interceptor_def split: option.splits if_splits)

declare client.simps [simp del]

subsection \<open>Generic HTTP methods\<close>

definition api_get ::
  "'sv backend \<Rightarrow> ('sv, 'd) handler \<Rightarrow> string \<Rightarrow> 'sv app \<Rightarrow> (error + 'd body) \<times> 'sv app" where
  "api_get b h path a =
     client b h
       \<lparr>verb = GET, url = baseURL @ path, request.data = NoData, authorization = None,
        retry = False\<rparr> a"

definition api_post ::
  "'sv backend \<Rightarrow> ('sv, 'd) handler \<Rightarrow> string \<Rightarrow> request_data \<Rightarrow> 'sv app \<Rightarrow>
     (error + 'd body) \<times> 'sv app" where
  "api_post b h path d a =
     client b h
       \<lparr>verb = POST, url = baseURL @ path, request.data = d, authorization = None,
        retry = False\<rparr> a"

definition api_put ::
  "'sv backend \<Rightarrow> ('sv, 'd) handler \<Rightarrow> string \<Rightarrow> request_data \<Rightarrow> 'sv app \<Rightarrow>
     (error + 'd body) \<times> 'sv app" where
  "api_put b h path d a =
     client b h
       \<lparr>verb = PUT, url = baseURL @ path, request.data = d, authorization = None,
        retry = False\<rparr> a"

definition api_delete ::
  "'sv backend \<Rightarrow> ('sv, 'd) handler \<Rightarrow> string \<Rightarrow> 'sv app \<Rightarrow> (error + 'd body) \<times> 'sv app" where
  "api_delete b h path a =
     client b h
       \<lparr>verb = DELETE, url = baseURL @ path, request.data = NoData, authorization = None,
        retry = False\<rparr> a"

subsection \<open>Authentication methods\<close>

text \<open>Each typed method returns \<open>response.data\<close>, the body.\<close>

definition api_login ::
  "'sv backend \<Rightarrow> string \<Rightarrow> string \<Rightarrow> 'sv app \<Rightarrow> (error + login_response body) \<times> 'sv app" where
  "api_login b em pw a = api_post b (loginH b) ''/auth/login'' (LoginData em pw) a"

text \<open>
  \<open>logout\<close> of the client: the server call is made only with a stored access token, its
  failure is logged and dropped, and the three keys are removed in either case.
\<close>

definition api_logout :: "'sv backend \<Rightarrow> 'sv app \<Rightarrow> (error + unit) \<times> 'sv app" where
  "api_logout b a =
     (case getItem ''accessToken'' a of
        None \<Rightarrow> (Inr (), clearTokens a)
      | Some tok \<Rightarrow>
          if tok \<noteq> [] then
            (case api_post b (voidH b) ''/auth/logout'' (LogoutData tok) a of
               (Inr resp, a1) \<Rightarrow> (Inr (), clearTokens a1)
             | (Inl err, a1) \<Rightarrow>
                 (Inr (), clearTokens (log (ConsoleWarn ''Logout request failed:'' err) a1)))
          else (Inr (), clearTokens a))"

subsection \<open>User service methods\<close>

definition api_getUsers :: "'sv backend \<Rightarrow> 'sv app \<Rightarrow> (error + user list body) \<times> 'sv app" where
  "api_getUsers b a = api_get b (usersH b) ''/users'' a"

definition api_getUserById ::
  "'sv backend \<Rightarrow> string \<Rightarrow> 'sv app \<Rightarrow> (error + user body) \<times> 'sv app" where
  "api_getUserById b uid a = api_get b (userH b) (''/users/'' @ uid) a"

definition api_createUser ::
  "'sv backend \<Rightarrow> create_user_request \<Rightarrow> 'sv app \<Rightarrow> (error + user body) \<times> 'sv app" where
  "api_createUser b userData a = api_post b (userH b) ''/users'' (CreateUserData userData) a"

definition api_updateUser ::
  "'sv backend \<Rightarrow> string \<Rightarrow> partial_create_user_request \<Rightarrow> 'sv app \<Rightarrow>
     (error + user body) \<times> 'sv app" where
  "api_updateUser b uid userData a =
     api_put b (userH b) (''/users/'' @ uid) (UpdateUserData userData) a"

definition api_deleteUser ::
  "'sv backend \<Rightarrow> string \<Rightarrow> 'sv app \<Rightarrow> (error + unit body) \<times> 'sv app" where
  "api_deleteUser b uid a = api_delete b (voidH b) (''/users/'' @ uid) a"

subsection \<open>Authorization service methods\<close>

definition api_getRoles :: "'sv backend \<Rightarrow> 'sv app \<Rightarrow> (error + role list body) \<times> 'sv app" where
  "api_getRoles b a = api_get b (rolesH b) ''/roles'' a"

definition api_createRole ::
  "'sv backend \<Rightarrow> create_role_request \<Rightarrow> 'sv app \<Rightarrow> (error + role body) \<times> 'sv app" where
  "api_createRole b roleData a = api_post b (roleH b) ''/roles'' (CreateRoleData roleData) a"

definition api_getPermissions ::
  "'sv backend \<Rightarrow> 'sv app \<Rightarrow> (error + permission list body) \<times> 'sv app" where
  "api_getPermissions b a = api_get b (permissionsH b) ''/permissions'' a"

definition api_createPermission ::
  "'sv backend \<Rightarrow> create_permission_request \<Rightarrow> 'sv app \<Rightarrow>
     (error + permission body) \<times> 'sv app" where
  "api_createPermission b permissionData a =
     api_post b (permissionH b) ''/permissions'' (CreatePermissionData permissionData) a"

definition api_assignRole ::
  "'sv backend \<Rightarrow> string \<Rightarrow> string \<Rightarrow> 'sv app \<Rightarrow> (error + unit body) \<times> 'sv app" where
  "api_assignRole b uid rid a =
     api_post b (voidH b) ''/authorization/assign-role'' (AssignRoleData uid rid) a"

definition api_revokeRole ::
  "'sv backend \<Rightarrow> string \<Rightarrow> string \<Rightarrow> 'sv app \<Rightarrow> (error + unit body) \<times> 'sv app" where
  "api_revokeRole b uid rid a =
     api_delete b (voidH b) (''/authorization/users/'' @ uid @ ''/roles/'' @ rid) a"

definition api_getUserRoles ::
  "'sv backend \<Rightarrow> string \<Rightarrow> 'sv app \<Rightarrow> (error + role list body) \<times> 'sv app" where
  "api_getUserRoles b uid a =
     api_get b (rolesH b) (''/authorization/users/'' @ uid @ ''/roles'') a"

definition api_getUserPermissions ::
  "'sv backend \<Rightarrow> string \<Rightarrow> 'sv app \<Rightarrow> (error + permission list body) \<times> 'sv app" where
  "api_getUserPermissions b uid a =
     api_get b (permissionsH b) (''/authorization/users/'' @ uid @ ''/permissions'') a"

definition api_checkPermission ::
  "'sv backend \<Rightarrow> string \<Rightarrow> string \<Rightarrow> string \<Rightarrow> 'sv app \<Rightarrow>
     (error + permission_check_response body) \<times> 'sv app" where
  "api_checkPermission b uid res act a =
     api_post b (checkH b) ''/authorization/check-permission''
       (CheckPermissionData uid res act) a"

section \<open>The session store (src/store/authStore.ts, \<open>useAuthStore\<close>)\<close>

text \<open>What is true of a slot in a condition, and what JSON writes for it.\<close>

fun slot_truthy :: "refresh_slot \<Rightarrow> bool" where
  "slot_truthy RefreshAction = True"
| "slot_truthy (RefreshValue v) = truthy v"

fun slot_json :: "refresh_slot \<Rightarrow> string option" where
  "slot_json RefreshAction = None"
| "slot_json (RefreshValue v) = v"

definition initial_auth_state :: auth_state where
  "initial_auth_state =
     \<lparr>auth_state.user = None, auth_state.token = None,
      auth_state.refreshToken = RefreshAction, auth_state.isAuthenticated = False,
      auth_state.isLoading = False\<rparr>"

definition partialize :: "auth_state \<Rightarrow> persisted_auth" where
  "partialize s =
     \<lparr>persisted_auth.user = auth_state.user s,
      persisted_auth.token = auth_state.token s,
      persisted_auth.refreshToken = slot_json (auth_state.refreshToken s),
      persisted_auth.isAuthenticated = auth_state.isAuthenticated s\<rparr>"

text \<open>
  \<open>set\<close> of the session store: the update, and with it the write of the \<open>persist\<close>
  middleware.
\<close>

definition set_auth :: "(auth_state \<Rightarrow> auth_state) \<Rightarrow> 'sv app \<Rightarrow> 'sv app" where
  "set_auth f a =
     a\<lparr>authStore := f (authStore a),
       authStorage := Some (partialize (f (authStore a))),
       trace := trace a @ [SetAuth (f (authStore a))]\<rparr>"

text \<open>\<open>login\<close> puts the refresh token in the slot, and so takes the action out of it.\<close>

definition authStore_login ::
  "'sv backend \<Rightarrow> login_request \<Rightarrow> 'sv app \<Rightarrow> (error + unit) \<times> 'sv app" where
  "authStore_login b credentials a0 =
     (let a1 = set_auth (\<lambda>s. s\<lparr>auth_state.isLoading := True\<rparr>) a0 in
      case api_login b (login_request.email credentials)
             (login_request.password credentials) a1 of
        (Inr resp, a2) \<Rightarrow>
          (let d = body.data resp;
               a3 = setItem ''accessToken'' (login_response.accessToken d) a2;
               a4 = setItem ''refreshToken'' (login_response.refreshToken d) a3;
               a5 = set_auth
                      (\<lambda>s. s\<lparr>auth_state.user := Some (login_response.userInfo d),
                              auth_state.token := Some (login_response.accessToken d),
                              auth_state.refreshToken :=
                                RefreshValue (Some (login_response.refreshToken d)),
                              auth_state.isAuthenticated := True,
                              auth_state.isLoading := False\<rparr>) a4
           in (Inr (), log (ToastSuccess ''Login successful!'') a5))
      | (Inl err, a2) \<Rightarrow>
          (let a3 = set_auth (\<lambda>s. s\<lparr>auth_state.isLoading := False\<rparr>) a2
           in (Inl err,
               log (ToastError (or_else (response_data_error err) ''Login failed'')) a3)))"

definition authStore_logout :: "'sv backend \<Rightarrow> 'sv app \<Rightarrow> (error + unit) \<times> 'sv app" where
  "authStore_logout b a0 =
     (let a1 = (case api_logout b a0 of
                  (Inr u, a') \<Rightarrow> a'
                | (Inl err, a') \<Rightarrow> log (ConsoleWarn ''Logout API call failed:'' err) a');
          a2 = removeItem ''accessToken'' a1;
          a3 = removeItem ''refreshToken'' a2;
          a4 = removeItem ''user'' a3;
          a5 = set_auth
                 (\<lambda>s. s\<lparr>auth_state.user := None, auth_state.token := None,
                         auth_state.refreshToken := RefreshValue None,
                         auth_state.isAuthenticated := False,
                         auth_state.isLoading := False\<rparr>) a4
      in (Inr (), log (ToastSuccess ''Logged out successfully'') a5))"

text \<open>
  The action that the object defines under \<open>refreshToken\<close>, as a function that a
  caller holds: it can be run in any state by whoever took it from the slot while it
  was there. It reads the slot through \<open>get()\<close>. A slot that still holds the action is
  truthy, so the guard lets it pass and the request body is the empty object. In the
  \<open>catch\<close> the action puts \<open>null\<close> in the slot.
\<close>

definition refreshToken_action :: "'sv backend \<Rightarrow> 'sv app \<Rightarrow> (error + unit) \<times> 'sv app" where
  "refreshToken_action b a0 =
     (if \<not> slot_truthy (auth_state.refreshToken (authStore a0)) then
        (Inl (Error ''No refresh token available''), a0)
      else
        (case api_post b (refreshH b) ''/auth/refresh''
                (RefreshData (slot_json (auth_state.refreshToken (authStore a0)))) a0 of
           (Inr resp, a1) \<Rightarrow>
             (let d = body.data resp;
                  a2 = setItem ''accessToken'' (refresh_response.accessToken d) a1;
                  a3 = set_auth
                         (\<lambda>s. s\<lparr>auth_state.token :=
                                   Some (refresh_response.accessToken d),
                                 auth_state.user :=
                                   Some (refresh_response.userInfo d),
                                 auth_state.isAuthenticated := True\<rparr>) a2
              in (Inr (), a3))
         | (Inl err, a1) \<Rightarrow>
             (Inl err,
              set_auth
                (\<lambda>s. s\<lparr>auth_state.user := None, auth_state.token := None,
                        auth_state.refreshToken := RefreshValue None,
                        auth_state.isAuthenticated := False\<rparr>) a1)))"

text \<open>
  \<open>refreshToken()\<close> called on the store: the call of whatever the slot holds. While the
  slot holds the action, that is the action; once \<open>login\<close>, \<open>logout\<close> or a failed
  refresh has put a token or \<open>null\<close> there, the call is a type error, and nothing is
  sent or changed.
\<close>

definition authStore_refreshToken :: "'sv backend \<Rightarrow> 'sv app \<Rightarrow> (error + unit) \<times> 'sv app" where
  "authStore_refreshToken b a0 =
     (case auth_state.refreshToken (authStore a0) of
        RefreshAction \<Rightarrow> refreshToken_action b a0
      | RefreshValue v \<Rightarrow> (Inl (TypeError ''refreshToken is not a function''), a0))"

definition authStore_clearError :: "'sv app \<Rightarrow> 'sv app" where
  "authStore_clearError a = set_auth (\<lambda>s. s\<lparr>auth_state.isLoading := False\<rparr>) a"

definition authStore_setLoading :: "bool \<Rightarrow> 'sv app \<Rightarrow> 'sv app" where
  "authStore_setLoading loading a = set_auth (\<lambda>s. s\<lparr>auth_state.isLoading := loading\<rparr>) a"

section \<open>The user store (src/store/userStore.ts, \<open>useUserStore\<close>)\<close>

definition initial_user_state :: user_state where
  "initial_user_state =
     \<lparr>users = [], currentUser = None, user_state.isLoading = False,
      user_state.error = None\<rparr>"

definition set_users :: "(user_state \<Rightarrow> user_state) \<Rightarrow> 'sv app \<Rightarrow> 'sv app" where
  "set_users f a =
     a\<lparr>userStore := f (userStore a), trace := trace a @ [SetUsers (f (userStore a))]\<rparr>"

text \<open>
  The \<open>catch\<close> block that the operations of this store share but for the fallback
  message: record the message, clear the loading flag, notify.
\<close>

definition users_failed :: "string \<Rightarrow> error \<Rightarrow> 'sv app \<Rightarrow> 'sv app" where
  "users_failed fallback err a =
     log (ToastError (or_else (response_data_error err) fallback))
       (set_users
          (\<lambda>s. s\<lparr>user_state.error := Some (or_else (response_data_error err) fallback),
                  user_state.isLoading := False\<rparr>) a)"

text \<open>
  In \<open>fetchUsers\<close> the fallback of \<open>response.data || []\<close> is never taken on a
  well-formed reply, whose data is a list.
\<close>

definition userStore_fetchUsers :: "'sv backend \<Rightarrow> 'sv app \<Rightarrow> (error + unit) \<times> 'sv app" where
  "userStore_fetchUsers b a0 =
     (let a1 = set_users (\<lambda>s. s\<lparr>user_state.isLoading := True, user_state.error := None\<rparr>) a0
      in case api_getUsers b a1 of
           (Inr resp, a2) \<Rightarrow>
             (Inr (),
              set_users (\<lambda>s. s\<lparr>users := body.data resp, user_state.isLoading := False\<rparr>) a2)
         | (Inl err, a2) \<Rightarrow> (Inr (), users_failed ''Failed to fetch users'' err a2))"

definition userStore_fetchUserById ::
  "'sv backend \<Rightarrow> string \<Rightarrow> 'sv app \<Rightarrow> (error + unit) \<times> 'sv app" where
  "userStore_fetchUserById b uid a0 =
     (let a1 = set_users (\<lambda>s. s\<lparr>user_state.isLoading := True, user_state.error := None\<rparr>) a0
      in case api_getUserById b uid a1 of
           (Inr resp, a2) \<Rightarrow>
             (Inr (),
              set_users
                (\<lambda>s. s\<lparr>currentUser := Some (body.data resp),
                        user_state.isLoading := False\<rparr>) a2)
         | (Inl err, a2) \<Rightarrow> (Inr (), users_failed ''Failed to fetch user'' err a2))"

definition userStore_createUser ::
  "'sv backend \<Rightarrow> create_user_request \<Rightarrow> 'sv app \<Rightarrow> (error + unit) \<times> 'sv app" where
  "userStore_createUser b userData a0 =
     (let a1 = set_users (\<lambda>s. s\<lparr>user_state.isLoading := True, user_state.error := None\<rparr>) a0
      in case api_createUser b userData a1 of
           (Inr resp, a2) \<Rightarrow>
             (let newUser = body.data resp;
                  a3 = set_users
                         (\<lambda>s. s\<lparr>users := users s @ [newUser],
                                 user_state.isLoading := False\<rparr>) a2
              in (Inr (), log (ToastSuccess ''User created successfully!'') a3))
         | (Inl err, a2) \<Rightarrow> (Inl err, users_failed ''Failed to create user'' err a2))"

definition userStore_updateUser ::
  "'sv backend \<Rightarrow> string \<Rightarrow> partial_create_user_request \<Rightarrow> 'sv app \<Rightarrow>
     (error + unit) \<times> 'sv app" where
  "userStore_updateUser b uid userData a0 =
     (let a1 = set_users (\<lambda>s. s\<lparr>user_state.isLoading := True, user_state.error := None\<rparr>) a0
      in case api_updateUser b uid userData a1 of
           (Inr resp, a2) \<Rightarrow>
             (let updatedUser = body.data resp;
                  a3 = set_users
                         (\<lambda>s. s\<lparr>users :=
                                   map (\<lambda>u. if user.userId u = uid then updatedUser else u)
                                     (users s),
                                 currentUser :=
                                   (case currentUser s of
                                      None \<Rightarrow> None
                                    | Some c \<Rightarrow>
                                        if user.userId c = uid then Some updatedUser
                                        else Some c),
                                 user_state.isLoading := False\<rparr>) a2
              in (Inr (), log (ToastSuccess ''User updated successfully!'') a3))
         | (Inl err, a2) \<Rightarrow> (Inl err, users_failed ''Failed to update user'' err a2))"

definition userStore_deleteUser ::
  "'sv backend \<Rightarrow> string \<Rightarrow> 'sv app \<Rightarrow> (error + unit) \<times> 'sv app" where
  "userStore_deleteUser b uid a0 =
     (let a1 = set_users (\<lambda>s. s\<lparr>user_state.isLoading := True, user_state.error := None\<rparr>) a0
      in case api_deleteUser b uid a1 of
           (Inr resp, a2) \<Rightarrow>
             (let a3 = set_users
                         (\<lambda>s. s\<lparr>users := filter (\<lambda>u. user.userId u \<noteq> uid) (users s),
                                 currentUser :=
                                   (case currentUser s of
                                      None \<Rightarrow> None
                                    | Some c \<Rightarrow>
                                        if user.userId c = uid then None else Some c),
                                 user_state.isLoading := False\<rparr>) a2
              in (Inr (), log (ToastSuccess ''User deleted successfully!'') a3))
         | (Inl err, a2) \<Rightarrow> (Inl err, users_failed ''Failed to delete user'' err a2))"

definition userStore_clearError :: "'sv app \<Rightarrow> 'sv app" where
  "userStore_clearError a = set_users (\<lambda>s. s\<lparr>user_state.error := None\<rparr>) a"

section \<open>The authorization store (src/store/authStore.ts, \<open>useAuthorizationStore\<close>)\<close>

definition initial_authorization_state :: authorization_state where
  "initial_authorization_state =
     \<lparr>roles = [], authorization_state.permissions = [], userRoles = Map.empty,
      userPermissions = Map.empty, authorization_state.isLoading = False,
      authorization_state.error = None\<rparr>"

definition set_authorization ::
  "(authorization_state \<Rightarrow> authorization_state) \<Rightarrow> 'sv app \<Rightarrow> 'sv app" where
  "set_authorization f a =
     a\<lparr>authorizationStore := f (authorizationStore a),
       trace := trace a @ [SetAuthorization (f (authorizationStore a))]\<rparr>"

text \<open>The \<open>catch\<close> block of the four operations of this store that record an error.\<close>

definition authorization_failed :: "string \<Rightarrow> error \<Rightarrow> 'sv app \<Rightarrow> 'sv app" where
  "authorization_failed fallback err a =
     set_authorization
       (\<lambda>s. s\<lparr>authorization_state.error :=
                 Some (or_else (response_data_error err) fallback),
               authorization_state.isLoading := False\<rparr>) a"

definition authorizationStore_fetchRoles ::
  "'sv backend \<Rightarrow> 'sv app \<Rightarrow> (error + unit) \<times> 'sv app" where
  "authorizationStore_fetchRoles b a0 =
     (let a1 = set_authorization
                 (\<lambda>s. s\<lparr>authorization_state.isLoading := True,
                         authorization_state.error := None\<rparr>) a0
      in case api_getRoles b a1 of
           (Inr resp, a2) \<Rightarrow>
             (Inr (),
              set_authorization
                (\<lambda>s. s\<lparr>roles := body.data resp,
                        authorization_state.isLoading := False\<rparr>) a2)
         | (Inl err, a2) \<Rightarrow> (Inr (), authorization_failed ''Failed to fetch roles'' err a2))"

definition authorizationStore_fetchPermissions ::
  "'sv backend \<Rightarrow> 'sv app \<Rightarrow> (error + unit) \<times> 'sv app" where
  "authorizationStore_fetchPermissions b a0 =
     (let a1 = set_authorization
                 (\<lambda>s. s\<lparr>authorization_state.isLoading := True,
                         authorization_state.error := None\<rparr>) a0
      in case api_getPermissions b a1 of
           (Inr resp, a2) \<Rightarrow>
             (Inr (),
              set_authorization
                (\<lambda>s. s\<lparr>authorization_state.permissions := body.data resp,
                        authorization_state.isLoading := False\<rparr>) a2)
         | (Inl err, a2) \<Rightarrow>
             (Inr (), authorization_failed ''Failed to fetch permissions'' err a2))"

definition authorizationStore_createRole ::
  "'sv backend \<Rightarrow> create_role_request \<Rightarrow> 'sv app \<Rightarrow> (error + unit) \<times> 'sv app" where
  "authorizationStore_createRole b roleData a0 =
     (let a1 = set_authorization
                 (\<lambda>s. s\<lparr>authorization_state.isLoading := True,
                         authorization_state.error := None\<rparr>) a0
      in case api_createRole b roleData a1 of
           (Inr resp, a2) \<Rightarrow>
             (let newRole = body.data resp;
                  a3 = set_authorization
                         (\<lambda>s. s\<lparr>roles := roles s @ [newRole],
                                 authorization_state.isLoading := False\<rparr>) a2
              in (Inr (), log (ToastSuccess ''Role created successfully!'') a3))
         | (Inl err, a2) \<Rightarrow> (Inl err, authorization_failed ''Failed to create role'' err a2))"

definition authorizationStore_createPermission ::
  "'sv backend \<Rightarrow> create_permission_request \<Rightarrow> 'sv app \<Rightarrow> (error + unit) \<times> 'sv app" where
  "authorizationStore_createPermission b permissionData a0 =
     (let a1 = set_authorization
                 (\<lambda>s. s\<lparr>authorization_state.isLoading := True,
                         authorization_state.error := None\<rparr>) a0
      in case api_createPermission b permissionData a1 of
           (Inr resp, a2) \<Rightarrow>
             (let newPermission = body.data resp;
                  a3 = set_authorization
                         (\<lambda>s. s\<lparr>authorization_state.permissions :=
                                   authorization_state.permissions s @ [newPermission],
                                 authorization_state.isLoading := False\<rparr>) a2
              in (Inr (), log (ToastSuccess ''Permission created successfully!'') a3))
         | (Inl err, a2) \<Rightarrow>
             (Inl err, authorization_failed ''Failed to create permission'' err a2))"

definition authorizationStore_fetchUserRoles ::
  "'sv backend \<Rightarrow> string \<Rightarrow> 'sv app \<Rightarrow> (error + unit) \<times> 'sv app" where
  "authorizationStore_fetchUserRoles b uid a0 =
     (case api_getUserRoles b uid a0 of
        (Inr resp, a1) \<Rightarrow>
          (Inr (),
           set_authorization (\<lambda>s. s\<lparr>userRoles := (userRoles s)(uid \<mapsto> body.data resp)\<rparr>) a1)
      | (Inl err, a1) \<Rightarrow> (Inr (), log (ConsoleError ''Failed to fetch user roles:'' err) a1))"

definition authorizationStore_fetchUserPermissions ::
  "'sv backend \<Rightarrow> string \<Rightarrow> 'sv app \<Rightarrow> (error + unit) \<times> 'sv app" where
  "authorizationStore_fetchUserPermissions b uid a0 =
     (case api_getUserPermissions b uid a0 of
        (Inr resp, a1) \<Rightarrow>
          (Inr (),
           set_authorization
             (\<lambda>s. s\<lparr>userPermissions := (userPermissions s)(uid \<mapsto> body.data resp)\<rparr>) a1)
      | (Inl err, a1) \<Rightarrow>
          (Inr (), log (ConsoleError ''Failed to fetch user permissions:'' err) a1))"

text \<open>
  \<open>assignRole\<close> and \<open>revokeRole\<close>: the server call, then the store's own
  \<open>fetchUserRoles\<close>, then the notification; whatever is thrown on the way is notified
  and thrown again.
\<close>

definition authorizationStore_assignRole ::
  "'sv backend \<Rightarrow> string \<Rightarrow> string \<Rightarrow> 'sv app \<Rightarrow> (error + unit) \<times> 'sv app" where
  "authorizationStore_assignRole b uid rid a0 =
     (case api_assignRole b uid rid a0 of
        (Inr resp, a1) \<Rightarrow>
          (case authorizationStore_fetchUserRoles b uid a1 of
             (Inr u, a2) \<Rightarrow> (Inr (), log (ToastSuccess ''Role assigned successfully!'') a2)
           | (Inl err, a2) \<Rightarrow>
               (Inl err,
                log (ToastError (or_else (response_data_error err) ''Failed to assign role''))
                  a2))
      | (Inl err, a1) \<Rightarrow>
          (Inl err,
           log (ToastError (or_else (response_data_error err) ''Failed to assign role'')) a1))"

definition authorizationStore_revokeRole ::
  "'sv backend \<Rightarrow> string \<Rightarrow> string \<Rightarrow> 'sv app \<Rightarrow> (error + unit) \<times> 'sv app" where
  "authorizationStore_revokeRole b uid rid a0 =
     (case api_revokeRole b uid rid a0 of
        (Inr resp, a1) \<Rightarrow>
          (case authorizationStore_fetchUserRoles b uid a1 of
             (Inr u, a2) \<Rightarrow> (Inr (), log (ToastSuccess ''Role revoked successfully!'') a2)
           | (Inl err, a2) \<Rightarrow>
               (Inl err,
                log (ToastError (or_else (response_data_error err) ''Failed to revoke role''))
                  a2))
      | (Inl err, a1) \<Rightarrow>
          (Inl err,
           log (ToastError (or_else (response_data_error err) ''Failed to revoke role'')) a1))"

definition authorizationStore_checkPermission ::
  "'sv backend \<Rightarrow> string \<Rightarrow> string \<Rightarrow> string \<Rightarrow> 'sv app \<Rightarrow> (error + bool) \<times> 'sv app" where
  "authorizationStore_checkPermission b uid res act a0 =
     (case api_checkPermission b uid res act a0 of
        (Inr resp, a1) \<Rightarrow> (Inr (hasPermission (body.data resp)), a1)
      | (Inl err, a1) \<Rightarrow> (Inr False, log (ConsoleError ''Permission check failed:'' err) a1))"

definition authorizationStore_clearError :: "'sv app \<Rightarrow> 'sv app" where
  "authorizationStore_clearError a =
     set_authorization (\<lambda>s. s\<lparr>authorization_state.error := None\<rparr>) a"

section \<open>Properties\<close>

text \<open>
  The network events of a trace, and those that an operation added: what the client
  put on the wire between two states, in order.
\<close>

fun is_network :: "event \<Rightarrow> bool" where
  "is_network (Sent r) = True"
| "is_network (Refresh t) = True"
| "is_network e = False"

text \<open>
  What an operation that only talks to the network leaves as it was: the three stores
  and the persisted snapshot; the trace only grows.
\<close>

definition frame :: "'sv app \<Rightarrow> 'sv app \<Rightarrow> bool" where
  "frame a a' \<longleftrightarrow>
     authStore a' = authStore a \<and> userStore a' = userStore a \<and>
     authorizationStore a' = authorizationStore a \<and> authStorage a' = authStorage a \<and>
     (\<exists>es. trace a' = trace a @ es)"

text \<open>The three credential keys are absent from storage.\<close>

definition credentials_cleared :: "'sv app \<Rightarrow> bool" where
  "credentials_cleared a \<longleftrightarrow>
     getItem ''accessToken'' a = None \<and> getItem ''refreshToken'' a = None \<and>
     getItem ''user'' a = None"

definition network_since :: "'sv app \<Rightarrow> 'sv app \<Rightarrow> event list" where
  "network_since a a' = filter is_network (drop (length (trace a)) (trace a'))"


text \<open>The invariant of the session: authenticated exactly when identity and access token are both present.\<close>

definition session_invariant :: "auth_state \<Rightarrow> bool" where
  "session_invariant s \<longleftrightarrow>
     auth_state.isAuthenticated s =
       (auth_state.user s \<noteq> None \<and> auth_state.token s \<noteq> None)"

text \<open>The session that \<open>logout\<close> leaves.\<close>

definition signed_out :: auth_state where
  "signed_out =
     \<lparr>auth_state.user = None, auth_state.token = None,
      auth_state.refreshToken = RefreshValue None, auth_state.isAuthenticated = False,
      auth_state.isLoading = False\<rparr>"

text \<open>One state comes after another when its trace extends the other's.\<close>

definition extends :: "'sv app \<Rightarrow> 'sv app \<Rightarrow> bool" where
  "extends a a' \<longleftrightarrow> (\<exists>es. trace a' = trace a @ es)"

section \<open>Concrete scenarios\<close>

text \<open>
  Backends without state and application states on which the theorems below are
  evaluated.
\<close>

definition alice :: user_info where
  "alice =
     \<lparr>user_info.userId = ''u1'', user_info.email = ''alice@example.org'',
      user_info.username = ''alice'', user_info.name = ''Alice'', user_info.orgId = 1,
      user_info.departmentId = 2, userType = ''ORG_ADMIN'', userStatus = ''ACTIVE''\<rparr>"

definition offline_backend :: "unit backend" where
  "offline_backend =
     \<lparr>loginH = (\<lambda>sv req. (NoResponse ''Network Error'', sv)),
      refreshH = (\<lambda>sv req. (NoResponse ''Network Error'', sv)),
      voidH = (\<lambda>sv req. (NoResponse ''Network Error'', sv)),
      userH = (\<lambda>sv req. (NoResponse ''Network Error'', sv)),
      usersH = (\<lambda>sv req. (NoResponse ''Network Error'', sv)),
      roleH = (\<lambda>sv req. (NoResponse ''Network Error'', sv)),
      rolesH = (\<lambda>sv req. (NoResponse ''Network Error'', sv)),
      permissionH = (\<lambda>sv req. (NoResponse ''Network Error'', sv)),
      permissionsH = (\<lambda>sv req. (NoResponse ''Network Error'', sv)),
      checkH = (\<lambda>sv req. (NoResponse ''Network Error'', sv))\<rparr>"

definition refresh_r1 :: "(unit, refresh_response) handler" where
  "refresh_r1 sv req =
     (if request.data req = RefreshData (Some ''r1'') then
        (Fulfilled
           \<lparr>body.data = \<lparr>refresh_response.accessToken = ''fresh'',
                          refresh_response.userInfo = alice\<rparr>,
            body.accessToken = Some ''fresh''\<rparr>, sv)
      else (Rejected 401 (Some ''Invalid refresh token''), sv))"

text \<open>
  A refresh handler that answers in the envelope of the other endpoints: the token is
  inside \<open>data\<close>, and the body has no \<open>accessToken\<close> of its own.
\<close>

definition refresh_enveloped :: "(unit, refresh_response) handler" where
  "refresh_enveloped sv req =
     (Fulfilled
        \<lparr>body.data = \<lparr>refresh_response.accessToken = ''fresh'',
                       refresh_response.userInfo = alice\<rparr>,
         body.accessToken = None\<rparr>, sv)"

definition users_if_fresh :: "(unit, user list) handler" where
  "users_if_fresh sv req =
     (if authorization req = Some ''Bearer fresh'' then
        (Fulfilled \<lparr>body.data = [], body.accessToken = None\<rparr>, sv)
      else (Rejected 401 (Some ''Token expired''), sv))"

definition users_denied :: "(unit, user list) handler" where
  "users_denied sv req = (Rejected 401 (Some ''Token expired''), sv)"

definition expiring_backend :: "unit backend" where
  "expiring_backend = offline_backend\<lparr>refreshH := refresh_r1, usersH := users_if_fresh\<rparr>"

definition enveloped_backend :: "unit backend" where
  "enveloped_backend =
     offline_backend\<lparr>refreshH := refresh_enveloped, usersH := users_if_fresh\<rparr>"

definition denying_backend :: "unit backend" where
  "denying_backend = offline_backend\<lparr>refreshH := refresh_r1, usersH := users_denied\<rparr>"

definition fresh_app :: "unit app" where
  "fresh_app =
     \<lparr>authStore = initial_auth_state, userStore = initial_user_state,
      authorizationStore = initial_authorization_state, localStorage = Map.empty,
      authStorage = None, href = ''/'', server = (), trace = []\<rparr>"

definition stored :: "string \<Rightarrow> string \<Rightarrow> unit app" where
  "stored tok rt = setItem ''refreshToken'' rt (setItem ''accessToken'' tok fresh_app)"

definition users_request :: request where
  "users_request =
     \<lparr>verb = GET, url = ''/api/v1/users'', request.data = NoData, authorization = None,
      retry = False\<rparr>"


definition signed_in :: auth_state where
  "signed_in =
     \<lparr>auth_state.user = Some alice, auth_state.token = Some ''t1'',
      auth_state.refreshToken = RefreshValue (Some ''r1''),
      auth_state.isAuthenticated = True,
      auth_state.isLoading = False\<rparr>"

definition signed_in_app :: "unit app" where
  "signed_in_app =
     (stored ''t1'' ''r1'')\<lparr>authStore := signed_in, authStorage := Some (partialize signed_in)\<rparr>"

definition alice_login :: login_request where
  "alice_login = \<lparr>login_request.email = ''alice@example.org'', login_request.password = ''secret''\<rparr>"

definition login_ok :: "(unit, login_response) handler" where
  "login_ok sv req =
     (Fulfilled
        \<lparr>body.data =
           \<lparr>login_response.accessToken = ''t1'', login_response.refreshToken = ''r1'',
            tokenType = ''Bearer'', expiresIn = 3600, login_response.userInfo = alice,
            loginAt = ''2024-01-01T00:00:00Z''\<rparr>,
         body.accessToken = None\<rparr>, sv)"

definition login_backend :: "unit backend" where
  "login_backend = offline_backend\<lparr>loginH := login_ok\<rparr>"

definition bob :: user where
  "bob =
     \<lparr>user.userId = ''u7'', user.email = ''bob@example.org'', user.username = ''bob'',
      user.name = ''Bob'', user.orgId = 1, user.departmentId = 2, user.authTypeId = 1,
      user.userTypeId = 2, user.userStatusId = 1, user.createdAt = ''2024-01-01'',
      user.updatedAt = ''2024-01-01''\<rparr>"

definition carol :: user where
  "carol =
     \<lparr>user.userId = ''u8'', user.email = ''carol@example.org'', user.username = ''carol'',
      user.name = ''Carol'', user.orgId = 1, user.departmentId = 3, user.authTypeId = 1,
      user.userTypeId = 3, user.userStatusId = 1, user.createdAt = ''2024-01-02'',
      user.updatedAt = ''2024-01-02''\<rparr>"

definition robert :: user where
  "robert = bob\<lparr>user.name := ''Robert'', user.updatedAt := ''2024-02-02''\<rparr>"

definition new_bob :: create_user_request where
  "new_bob =
     \<lparr>create_user_request.email = ''bob@example.org'',
      create_user_request.username = ''bob'', create_user_request.name = ''Bob'',
      create_user_request.password = ''secret'', create_user_request.orgId = 1,
      create_user_request.departmentId = 2, create_user_request.userTypeId = 2,
      create_user_request.userStatusId = 1, create_user_request.authTypeId = 1\<rparr>"

definition rename_to_robert :: partial_create_user_request where
  "rename_to_robert =
     \<lparr>partial_create_user_request.email = None,
      partial_create_user_request.username = None,
      partial_create_user_request.name = Some ''Robert'',
      partial_create_user_request.password = None,
      partial_create_user_request.orgId = None,
      partial_create_user_request.departmentId = None,
      partial_create_user_request.userTypeId = None,
      partial_create_user_request.userStatusId = None,
      partial_create_user_request.authTypeId = None\<rparr>"

definition user_backend :: "user \<Rightarrow> unit backend" where
  "user_backend u =
     offline_backend
       \<lparr>userH := (\<lambda>sv req. (Fulfilled \<lparr>body.data = u, body.accessToken = None\<rparr>, sv))\<rparr>"

definition with_users :: "user list \<Rightarrow> user option \<Rightarrow> unit app" where
  "with_users us cur =
     fresh_app
       \<lparr>userStore :=
          \<lparr>users = us, currentUser = cur, user_state.isLoading = False,
           user_state.error = None\<rparr>\<rparr>"

definition viewer :: role where
  "viewer =
     \<lparr>roleId = ''r-viewer'', roleName = ''VIEWER'', role.description = ''Read only'',
      role.orgId = 1, role.departmentId = None, role.isActive = True, isSystemRole = True,
      role.createdAt = ''2024-01-01'', role.updatedAt = ''2024-01-01'',
      role.createdBy = None, role.updatedBy = None, role.permissions = None,
      userCount = None\<rparr>"

definition admin :: role where
  "admin =
     \<lparr>roleId = ''r-admin'', roleName = ''ADMIN'', role.description = ''Administrator'',
      role.orgId = 1, role.departmentId = None, role.isActive = True, isSystemRole = True,
      role.createdAt = ''2024-01-01'', role.updatedAt = ''2024-01-01'',
      role.createdBy = None, role.updatedBy = None, role.permissions = None,
      userCount = None\<rparr>"

definition void_ok :: "(unit, unit) handler" where
  "void_ok sv req = (Fulfilled \<lparr>body.data = (), body.accessToken = None\<rparr>, sv)"

definition roles_ok :: "(unit, role list) handler" where
  "roles_ok sv req = (Fulfilled \<lparr>body.data = [viewer, admin], body.accessToken = None\<rparr>, sv)"

definition assign_only_backend :: "unit backend" where
  "assign_only_backend = offline_backend\<lparr>voidH := void_ok\<rparr>"

definition roles_backend :: "unit backend" where
  "roles_backend = offline_backend\<lparr>voidH := void_ok, rolesH := roles_ok\<rparr>"

definition cached_authorization :: authorization_state where
  "cached_authorization =
     initial_authorization_state
       \<lparr>userRoles := [''u7'' \<mapsto> [viewer]],
        authorization_state.error := Some ''Failed to fetch roles''\<rparr>"

definition cached_app :: "unit app" where
  "cached_app = fresh_app\<lparr>authorizationStore := cached_authorization\<rparr>"

definition assign_request :: request where
  "assign_request =
     \<lparr>verb = POST, url = ''/api/v1/authorization/assign-role'',
      request.data = AssignRoleData ''u7'' ''r-admin'', authorization = None,
      retry = False\<rparr>"

definition revoke_request :: request where
  "revoke_request =
     \<lparr>verb = DELETE, url = ''/api/v1/authorization/users/u7/roles/r-admin'',
      request.data = NoData, authorization = None, retry = False\<rparr>"

definition roles_request :: request where
  "roles_request =
     \<lparr>verb = GET, url = ''/api/v1/authorization/users/u7/roles'',
      request.data = NoData, authorization = None, retry = False\<rparr>"

definition permissions_request :: request where
  "permissions_request =
     \<lparr>verb = GET, url = ''/api/v1/authorization/users/u7/permissions'',
      request.data = NoData, authorization = None, retry = False\<rparr>"

definition network_error :: "request \<Rightarrow> error" where
  "network_error cfg = Axios \<lparr>config = cfg, response = None, message = ''Network Error''\<rparr>"

definition read_users_granted :: permission_check_response where
  "read_users_granted =
     \<lparr>permission_check_response.userId = ''u7'',
      permission_check_response.resource = ''users'',
      permission_check_response.action = ''read'', hasPermission = True,
      grantingRoles = Some [''VIEWER''], reason = None\<rparr>"

definition granting_backend :: "unit backend" where
  "granting_backend =
     offline_backend
       \<lparr>checkH :=
          (\<lambda>sv req. (Fulfilled \<lparr>body.data = read_users_granted, body.accessToken = None\<rparr>, sv))\<rparr>"

section \<open>Lemmas on the client: it keeps the stores and only extends the trace\<close>

lemma frame_refl [simp]: "frame a a"
  by (simp add: frame_def)

lemma frame_trans: "frame a a' \<Longrightarrow> frame a' a'' \<Longrightarrow> frame a a''"
  by (auto simp add: frame_def)

lemma frame_log [simp]: "frame a (log e a)"
  by (simp add: frame_def log_def)

lemma frame_setItem [simp]: "frame a (setItem k v a)"
  by (simp add: frame_def setItem_def)

lemma frame_removeItem [simp]: "frame a (removeItem k a)"
  by (simp add: frame_def removeItem_def)

lemma frame_clearTokens [simp]: "frame a (clearTokens a)"
  by (simp add: frame_def clearTokens_def removeItem_def)

lemma frame_href [simp]: "frame a (a\<lparr>href := l\<rparr>)"
  by (simp add: frame_def)

lemma frame_other_errors [simp]: "frame a (other_errors err a)"
  by (simp add: other_errors_def split: option.splits)

lemma frame_adapter [simp]: "frame a (snd (adapter h cfg a))"
  by (simp add: frame_def adapter_def split: prod.splits reply.splits)

lemma other_errors_trace:
  "\<exists>es. trace (other_errors err a) = trace a @ es \<and> filter is_network es = []"
proof (cases "other_errors err a = a")
  case True
  then show ?thesis by (intro exI[of _ "[]"]) simp
next
  case False
  then obtain m where "other_errors err a = log (ToastError m) a"
    by (auto simp add: other_errors_def split: option.splits if_splits)
  then show ?thesis by (intro exI[of _ "[ToastError m]"]) (simp add: log_def)
qed

lemma other_errors_localStorage [simp]:
  "localStorage (other_errors err a) = localStorage a"
  by (auto simp add: other_errors_def log_def split: option.splits)

lemma retry_request_interceptor [simp]: "retry (request_interceptor a cfg) = retry cfg"
  by (simp add: request_interceptor_def split: option.splits)

lemma adapter_trace [simp]: "trace (snd (adapter h cfg a)) = trace a"
  by (simp add: adapter_def split: prod.splits reply.splits)

lemma adapter_localStorage [simp]: "localStorage (snd (adapter h cfg a)) = localStorage a"
  by (simp add: adapter_def split: prod.splits reply.splits)

lemma client_flagged:
  "retry cfg \<Longrightarrow> client b h cfg a =
     (case adapter h (request_interceptor a cfg) (log (Sent (request_interceptor a cfg)) a) of
        (Inr resp, a1) \<Rightarrow> (Inr resp, a1)
      | (Inl err, a1) \<Rightarrow> (Inl (Axios err), other_errors err a1))"
  by (subst client.simps) (simp add: Let_def split: option.splits prod.splits sum.splits)

lemma client_flagged_frame:
  assumes "retry cfg"
  shows "frame a (snd (client b h cfg a))"
proof -
  let ?c = "request_interceptor a cfg"
  obtain r a1 where ad: "adapter h ?c (log (Sent ?c) a) = (r, a1)"
    by (cases "adapter h ?c (log (Sent ?c) a)")
  have "frame (log (Sent ?c) a) a1"
    using frame_adapter[of "log (Sent ?c) a" h ?c] by (simp add: ad)
  then have f: "frame a a1"
    by (rule frame_trans[OF frame_log])
  show ?thesis
  proof (cases r)
    case (Inr resp)
    with ad f assms show ?thesis by (simp add: client_flagged)
  next
    case (Inl err)
    with ad assms have "snd (client b h cfg a) = other_errors err a1"
      by (simp add: client_flagged)
    with f show ?thesis
      by (auto intro: frame_trans)
  qed
qed

lemma frame_api_refreshToken [simp]: "frame a (snd (api_refreshToken b rt a))"
  unfolding api_refreshToken_def
  by (rule frame_trans[OF frame_log frame_adapter])

lemma client_frame: "frame a (snd (client b h cfg a))"
proof (cases "retry cfg")
  case True
  then show ?thesis by (rule client_flagged_frame)
next
  case False
  let ?c = "request_interceptor a cfg"
  obtain r a1 where ad: "adapter h ?c (log (Sent ?c) a) = (r, a1)"
    by (cases "adapter h ?c (log (Sent ?c) a)")
  have "frame (log (Sent ?c) a) a1"
    using frame_adapter[of "log (Sent ?c) a" h ?c] by (simp add: ad)
  then have f: "frame a a1"
    by (rule frame_trans[OF frame_log])
  have fo: "\<And>e. frame a (other_errors e a1)"
    by (rule frame_trans[OF f frame_other_errors])
  show ?thesis
  proof (cases r)
    case (Inr resp)
    with ad f show ?thesis by (subst client.simps) (simp add: Let_def)
  next
    case (Inl err)
    show ?thesis
    proof (cases "response_status err = Some 401 \<and> truthy (getItem ''refreshToken'' a1)")
      case no: False
      with ad Inl False fo show ?thesis
        apply (subst client.simps)
        apply (cases "getItem ''refreshToken'' a1")
         apply (auto simp add: Let_def)
        done
    next
      case yes: True
      then obtain rt where rt: "getItem ''refreshToken'' a1 = Some rt" "rt \<noteq> []"
        by (cases "getItem ''refreshToken'' a1") auto
      obtain r2 a2 where rf: "api_refreshToken b rt a1 = (r2, a2)"
        by (cases "api_refreshToken b rt a1")
      have "frame a1 a2"
        using frame_api_refreshToken[of a1 b rt] by (simp add: rf)
      with f have f2: "frame a a2" by (rule frame_trans)
      show ?thesis
      proof (cases r2)
        case (Inl refreshError)
        have "frame a ((clearTokens a2)\<lparr>href := ''/login''\<rparr>)"
          by (rule frame_trans[OF f2 frame_trans[OF frame_clearTokens frame_href]])
        with ad \<open>r = Inl err\<close> False yes rt rf Inl show ?thesis
          by (subst client.simps) (simp add: Let_def)
      next
        case (Inr resp)
        let ?replay = "?c\<lparr>retry := True,
            authorization := Some (''Bearer '' @ js_string (body.accessToken resp))\<rparr>"
        let ?a3 = "setItem ''accessToken'' (js_string (body.accessToken resp)) a2"
        have "frame a ?a3"
          by (rule frame_trans[OF f2 frame_setItem])
        moreover have "frame ?a3 (snd (client b h ?replay ?a3))"
          by (rule client_flagged_frame) simp
        ultimately have "frame a (snd (client b h ?replay ?a3))"
          by (rule frame_trans)
        with ad \<open>r = Inl err\<close> False yes rt rf Inr show ?thesis
          by (subst client.simps) (simp add: Let_def)
      qed
    qed
  qed
qed

lemma frame_authStore: "frame a a' \<Longrightarrow> authStore a' = authStore a"
  by (simp add: frame_def)

lemma frame_userStore: "frame a a' \<Longrightarrow> userStore a' = userStore a"
  by (simp add: frame_def)

lemma frame_authorizationStore: "frame a a' \<Longrightarrow> authorizationStore a' = authorizationStore a"
  by (simp add: frame_def)

lemma frame_authStorage: "frame a a' \<Longrightarrow> authStorage a' = authStorage a"
  by (simp add: frame_def)

lemma frame_trace: "frame a a' \<Longrightarrow> \<exists>es. trace a' = trace a @ es"
  by (simp add: frame_def)

lemma frame_api_post: "frame a (snd (api_post b h path d a))"
  unfolding api_post_def by (rule client_frame)

lemma frame_api_get: "frame a (snd (api_get b h path a))"
  unfolding api_get_def by (rule client_frame)

lemma frame_api_put: "frame a (snd (api_put b h path d a))"
  unfolding api_put_def by (rule client_frame)

lemma frame_api_delete: "frame a (snd (api_delete b h path a))"
  unfolding api_delete_def by (rule client_frame)

lemma api_get_frame: "api_get b h path a = (r, a') \<Longrightarrow> frame a a'"
  using frame_api_get[of a b h path] by simp

lemma api_post_frame: "api_post b h path d a = (r, a') \<Longrightarrow> frame a a'"
  using frame_api_post[of a b h path d] by simp

lemma api_put_frame: "api_put b h path d a = (r, a') \<Longrightarrow> frame a a'"
  using frame_api_put[of a b h path d] by simp

lemma api_delete_frame: "api_delete b h path a = (r, a') \<Longrightarrow> frame a a'"
  using frame_api_delete[of a b h path] by simp

lemmas api_frames = api_get_frame api_post_frame api_put_frame api_delete_frame

text \<open>A request that is fulfilled, or that gets no response, at once.\<close>

lemma client_fulfilled:
  "h (server a) (request_interceptor a cfg) = (Fulfilled bd, sv) \<Longrightarrow>
   client b h cfg a = (Inr bd, (log (Sent (request_interceptor a cfg)) a)\<lparr>server := sv\<rparr>)"
  by (subst client.simps) (simp add: Let_def adapter_def log_def)

lemma client_no_response:
  "h (server a) (request_interceptor a cfg) = (NoResponse msg, sv) \<Longrightarrow>
   client b h cfg a =
     (Inl (Axios \<lparr>config = request_interceptor a cfg, response = None, message = msg\<rparr>),
      other_errors \<lparr>config = request_interceptor a cfg, response = None, message = msg\<rparr>
        ((log (Sent (request_interceptor a cfg)) a)\<lparr>server := sv\<rparr>))"
  by (subst client.simps) (simp add: Let_def adapter_def log_def)

section \<open>Lemmas on the response interceptor\<close>

lemma clearTokens_cleared [simp]: "credentials_cleared ((clearTokens a)\<lparr>href := l\<rparr>)"
  by (simp add: credentials_cleared_def clearTokens_def removeItem_def getItem_def)

lemma client_flagged_trace:
  assumes "retry cfg"
  shows "\<exists>es. trace (snd (client b h cfg a)) = trace a @ Sent (request_interceptor a cfg) # es
           \<and> filter is_network es = []"
proof -
  let ?c = "request_interceptor a cfg"
  obtain r a1 where ad: "adapter h ?c (log (Sent ?c) a) = (r, a1)"
    by (cases "adapter h ?c (log (Sent ?c) a)")
  have "trace a1 = trace (log (Sent ?c) a)"
    using adapter_trace[of h ?c "log (Sent ?c) a"] by (simp add: ad)
  then have t: "trace a1 = trace a @ [Sent ?c]"
    by (simp add: log_def)
  show ?thesis
  proof (cases r)
    case (Inr resp)
    with ad t assms show ?thesis by (simp add: client_flagged)
  next
    case (Inl err)
    with ad assms have "snd (client b h cfg a) = other_errors err a1"
      by (simp add: client_flagged)
    with t other_errors_trace[of err a1] show ?thesis
      by auto
  qed
qed

lemma client_flagged_fst:
  "retry cfg \<Longrightarrow> fst (client b h cfg a) =
     (case fst (h (server a) (request_interceptor a cfg)) of
        Fulfilled bd' \<Rightarrow> Inr bd'
      | Rejected st e' \<Rightarrow>
          Inl (Axios \<lparr>config = request_interceptor a cfg, response = Some (st, e'),
                       message = status_message st\<rparr>)
      | NoResponse msg \<Rightarrow>
          Inl (Axios \<lparr>config = request_interceptor a cfg, response = None,
                       message = msg\<rparr>))"
  by (simp add: client_flagged adapter_def log_def split: prod.splits reply.splits)

lemma client_flagged_localStorage:
  "retry cfg \<Longrightarrow> localStorage (snd (client b h cfg a)) = localStorage a"
  by (simp add: client_flagged adapter_def log_def split: prod.splits reply.splits sum.splits)

lemma client_unflagged_401:
  assumes "\<not> retry cfg"
    and "h (server a) (request_interceptor a cfg) = (Rejected 401 e, sv)"
  shows "client b h cfg a =
     (let first = request_interceptor a cfg;
          a1 = (log (Sent first) a)\<lparr>server := sv\<rparr>;
          err = \<lparr>config = first\<lparr>retry := True\<rparr>, response = Some (401, e),
                 message = status_message 401\<rparr>
      in case getItem ''refreshToken'' a of
           None \<Rightarrow> (Inl (Axios err), other_errors err a1)
         | Some rt \<Rightarrow>
             if rt = [] then (Inl (Axios err), other_errors err a1)
             else
               (case adapter (refreshH b) (refresh_request rt) (log (Refresh rt) a1) of
                  (Inr resp, a2) \<Rightarrow>
                    client b h
                      (first\<lparr>retry := True,
                             authorization := Some (''Bearer '' @ js_string (body.accessToken resp))\<rparr>)
                      (setItem ''accessToken'' (js_string (body.accessToken resp)) a2)
                | (Inl refreshError, a2) \<Rightarrow>
                    (Inl (Axios refreshError), (clearTokens a2)\<lparr>href := ''/login''\<rparr>)))"
  using assms
  apply (subst client.simps)
  apply (simp add: Let_def adapter_def log_def getItem_def api_refreshToken_def split: option.splits prod.splits sum.splits)
  done

lemma unflagged_401_no_refresh_token:
  assumes "\<not> retry cfg"
    and "h (server a) (request_interceptor a cfg) = (Rejected 401 e, sv)"
    and "\<not> truthy (getItem ''refreshToken'' a)"
  shows "network_since a (snd (client b h cfg a)) = [Sent (request_interceptor a cfg)]"
    and "fst (client b h cfg a) =
           Inl (Axios \<lparr>config = (request_interceptor a cfg)\<lparr>retry := True\<rparr>,
                        response = Some (401, e), message = status_message 401\<rparr>)"
    and "localStorage (snd (client b h cfg a)) = localStorage a"
proof -
  let ?first = "request_interceptor a cfg"
  let ?a1 = "(log (Sent ?first) a)\<lparr>server := sv\<rparr>"
  let ?err = "\<lparr>config = ?first\<lparr>retry := True\<rparr>, response = Some (401, e),
                 message = status_message 401\<rparr>"
  from assms have c: "client b h cfg a = (Inl (Axios ?err), other_errors ?err ?a1)"
    by (cases "getItem ''refreshToken'' a") (simp_all add: client_unflagged_401 Let_def)
  show "fst (client b h cfg a) = Inl (Axios ?err)"
    by (simp add: c)
  show "localStorage (snd (client b h cfg a)) = localStorage a"
    by (simp add: c log_def)
  have t1: "trace ?a1 = trace a @ [Sent ?first]"
    by (simp add: log_def)
  from other_errors_trace[of ?err ?a1] obtain es where
    es: "trace (other_errors ?err ?a1) = trace ?a1 @ es" "filter is_network es = []"
    by blast
  show "network_since a (snd (client b h cfg a)) = [Sent ?first]"
    unfolding c network_since_def snd_conv es(1) t1 using es(2) by simp
qed

lemma unflagged_401_refresh_failed:
  assumes "\<not> retry cfg"
    and "h (server a) (request_interceptor a cfg) = (Rejected 401 e, sv)"
    and "getItem ''refreshToken'' a = Some rt" and "rt \<noteq> []"
    and "adapter (refreshH b) (refresh_request rt)
           (log (Refresh rt) ((log (Sent (request_interceptor a cfg)) a)\<lparr>server := sv\<rparr>))
         = (Inl refreshError, a2)"
  shows "network_since a (snd (client b h cfg a)) = [Sent (request_interceptor a cfg), Refresh rt]"
    and "fst (client b h cfg a) = Inl (Axios refreshError)"
    and "credentials_cleared (snd (client b h cfg a))"
    and "href (snd (client b h cfg a)) = ''/login''"
proof -
  let ?first = "request_interceptor a cfg"
  let ?a1 = "(log (Sent ?first) a)\<lparr>server := sv\<rparr>"
  from assms have c: "client b h cfg a = (Inl (Axios refreshError), (clearTokens a2)\<lparr>href := ''/login''\<rparr>)"
    by (simp add: client_unflagged_401 Let_def)
  have "trace a2 = trace (log (Refresh rt) ?a1)"
    using adapter_trace[of "refreshH b" "refresh_request rt" "log (Refresh rt) ?a1"]
    unfolding assms(5) by simp
  then have t: "trace a2 = trace a @ [Sent ?first, Refresh rt]"
    by (simp add: log_def)
  show "fst (client b h cfg a) = Inl (Axios refreshError)" by (simp add: c)
  show "credentials_cleared (snd (client b h cfg a))" by (simp add: c)
  show "href (snd (client b h cfg a)) = ''/login''" by (simp add: c)
  show "network_since a (snd (client b h cfg a)) = [Sent ?first, Refresh rt]"
    by (simp add: c network_since_def t clearTokens_def removeItem_def)
qed

lemma unflagged_401_replay:
  assumes "\<not> retry cfg"
    and "h (server a) (request_interceptor a cfg) = (Rejected 401 e, sv)"
    and "getItem ''refreshToken'' a = Some rt" and "rt \<noteq> []"
    and "refreshH b sv (refresh_request rt) = (Fulfilled bd, sv')"
  shows "network_since a (snd (client b h cfg a)) =
           [Sent (request_interceptor a cfg), Refresh rt,
            Sent ((request_interceptor a cfg)
                    \<lparr>retry := True,
                     authorization := Some (''Bearer '' @ js_string (body.accessToken bd))\<rparr>)]"
    and "fst (client b h cfg a) =
           (case fst (h sv' ((request_interceptor a cfg)
                    \<lparr>retry := True,
                     authorization := Some (''Bearer '' @ js_string (body.accessToken bd))\<rparr>)) of
              Fulfilled bd' \<Rightarrow> Inr bd'
            | Rejected st e' \<Rightarrow>
                Inl (Axios \<lparr>config = (request_interceptor a cfg)
                    \<lparr>retry := True,
                     authorization := Some (''Bearer '' @ js_string (body.accessToken bd))\<rparr>,
                     response = Some (st, e'), message = status_message st\<rparr>)
            | NoResponse msg \<Rightarrow>
                Inl (Axios \<lparr>config = (request_interceptor a cfg)
                    \<lparr>retry := True,
                     authorization := Some (''Bearer '' @ js_string (body.accessToken bd))\<rparr>,
                     response = None, message = msg\<rparr>))"
    and "localStorage (snd (client b h cfg a)) =
           (localStorage a)(''accessToken'' \<mapsto> js_string (body.accessToken bd))"
proof -
  let ?first = "request_interceptor a cfg"
  let ?a1 = "(log (Sent ?first) a)\<lparr>server := sv\<rparr>"
  let ?tok = "js_string (body.accessToken bd)"
  let ?replay = "?first\<lparr>retry := True, authorization := Some (''Bearer '' @ ?tok)\<rparr>"
  let ?a2 = "(log (Refresh rt) ?a1)\<lparr>server := sv'\<rparr>"
  let ?a3 = "setItem ''accessToken'' ?tok ?a2"
  from assms have ad: "adapter (refreshH b) (refresh_request rt) (log (Refresh rt) ?a1) = (Inr bd, ?a2)"
    by (simp add: adapter_def log_def)
  with assms have c: "client b h cfg a = client b h ?replay ?a3"
    by (simp add: client_unflagged_401 Let_def)
  have ri: "request_interceptor ?a3 ?replay = ?replay"
    by (simp add: request_interceptor_def setItem_def getItem_def)
  have t3: "trace ?a3 = trace a @ [Sent ?first, Refresh rt]"
    by (simp add: setItem_def log_def)
  from client_flagged_trace[of ?replay b h ?a3] obtain es where
    es: "trace (snd (client b h ?replay ?a3)) = trace ?a3 @ Sent ?replay # es" "filter is_network es = []"
    unfolding ri by auto
  show "network_since a (snd (client b h cfg a)) = [Sent ?first, Refresh rt, Sent ?replay]"
    unfolding c network_since_def es t3 using es(2) by simp
  have sv3: "server ?a3 = sv'"
    by (simp add: setItem_def log_def)
  have r: "retry ?replay"
    by simp
  show "fst (client b h cfg a) =
           (case fst (h sv' ?replay) of
              Fulfilled bd' \<Rightarrow> Inr bd'
            | Rejected st e' \<Rightarrow>
                Inl (Axios \<lparr>config = ?replay, response = Some (st, e'), message = status_message st\<rparr>)
            | NoResponse msg \<Rightarrow>
                Inl (Axios \<lparr>config = ?replay, response = None, message = msg\<rparr>))"
    unfolding c using client_flagged_fst[OF r, of b h ?a3] unfolding ri sv3 .
  have "localStorage (snd (client b h ?replay ?a3)) = localStorage ?a3"
    using r by (rule client_flagged_localStorage)
  then show "localStorage (snd (client b h cfg a)) = (localStorage a)(''accessToken'' \<mapsto> ?tok)"
    unfolding c by (simp add: setItem_def log_def)
qed

section \<open>Lemmas on the session store\<close>

lemma authStore_set_auth [simp]: "authStore (set_auth f a) = f (authStore a)"
  by (simp add: set_auth_def)

lemma authStorage_set_auth [simp]:
  "authStorage (set_auth f a) = Some (partialize (f (authStore a)))"
  by (simp add: set_auth_def)

lemma localStorage_set_auth [simp]: "localStorage (set_auth f a) = localStorage a"
  by (simp add: set_auth_def)

lemma authStore_log [simp]: "authStore (log e a) = authStore a"
  by (simp add: log_def)

lemma authStorage_log [simp]: "authStorage (log e a) = authStorage a"
  by (simp add: log_def)

lemma localStorage_log [simp]: "localStorage (log e a) = localStorage a"
  by (simp add: log_def)

lemma authStore_setItem [simp]: "authStore (setItem k v a) = authStore a"
  by (simp add: setItem_def)

lemma authStore_removeItem [simp]: "authStore (removeItem k a) = authStore a"
  by (simp add: removeItem_def)

lemma authStore_api_post: "authStore (snd (api_post b h path d a)) = authStore a"
  by (rule frame_authStore) (rule frame_api_post)

lemma authStore_api_login: "authStore (snd (api_login b em pw a)) = authStore a"
  unfolding api_login_def by (rule authStore_api_post)

lemma login_failure:
  assumes "fst (api_login b (login_request.email credentials)
             (login_request.password credentials)
             (set_auth (\<lambda>s. s\<lparr>auth_state.isLoading := True\<rparr>) a)) = Inl err"
  shows "fst (authStore_login b credentials a) = Inl err"
    and "authStore (snd (authStore_login b credentials a)) =
           (authStore a)\<lparr>auth_state.isLoading := False\<rparr>"
proof -
  let ?a1 = "set_auth (\<lambda>s. s\<lparr>auth_state.isLoading := True\<rparr>) a"
  obtain r a2 where c: "api_login b (login_request.email credentials)
             (login_request.password credentials) ?a1 = (r, a2)"
    by (cases "api_login b (login_request.email credentials)
             (login_request.password credentials) ?a1")
  with assms have r: "r = Inl err" by simp
  have "authStore a2 = authStore ?a1"
    using authStore_api_login[of b "login_request.email credentials"
            "login_request.password credentials" ?a1]
    unfolding c by simp
  then have s: "authStore a2 = (authStore a)\<lparr>auth_state.isLoading := True\<rparr>"
    by simp
  show "fst (authStore_login b credentials a) = Inl err"
    by (simp add: authStore_login_def Let_def c r)
  show "authStore (snd (authStore_login b credentials a)) =
           (authStore a)\<lparr>auth_state.isLoading := False\<rparr>"
    by (simp add: authStore_login_def Let_def c r s)
qed

lemma login_success:
  assumes "fst (api_login b (login_request.email credentials)
             (login_request.password credentials)
             (set_auth (\<lambda>s. s\<lparr>auth_state.isLoading := True\<rparr>) a)) = Inr resp"
  shows "fst (authStore_login b credentials a) = Inr ()"
    and "authStore (snd (authStore_login b credentials a)) =
           \<lparr>auth_state.user = Some (login_response.userInfo (body.data resp)),
            auth_state.token = Some (login_response.accessToken (body.data resp)),
            auth_state.refreshToken =
              RefreshValue (Some (login_response.refreshToken (body.data resp))),
            auth_state.isAuthenticated = True, auth_state.isLoading = False\<rparr>"
proof -
  let ?a1 = "set_auth (\<lambda>s. s\<lparr>auth_state.isLoading := True\<rparr>) a"
  obtain r a2 where c: "api_login b (login_request.email credentials)
             (login_request.password credentials) ?a1 = (r, a2)"
    by (cases "api_login b (login_request.email credentials)
             (login_request.password credentials) ?a1")
  with assms have r: "r = Inr resp" by simp
  show "fst (authStore_login b credentials a) = Inr ()"
    by (simp add: authStore_login_def Let_def c r)
  show "authStore (snd (authStore_login b credentials a)) =
           \<lparr>auth_state.user = Some (login_response.userInfo (body.data resp)),
            auth_state.token = Some (login_response.accessToken (body.data resp)),
            auth_state.refreshToken =
              RefreshValue (Some (login_response.refreshToken (body.data resp))),
            auth_state.isAuthenticated = True, auth_state.isLoading = False\<rparr>"
    by (simp add: authStore_login_def Let_def c r)
qed

lemma getItem_removeItem [simp]:
  "getItem k (removeItem k' a) = (if k = k' then None else getItem k a)"
  by (simp add: getItem_def removeItem_def)

lemma getItem_set_auth [simp]: "getItem k (set_auth f a) = getItem k a"
  by (simp add: getItem_def)

lemma getItem_log [simp]: "getItem k (log e a) = getItem k a"
  by (simp add: getItem_def)

lemma logout_fst: "fst (authStore_logout b a) = Inr ()"
  by (simp add: authStore_logout_def Let_def)

lemma logout_authStore:
  "authStore (snd (authStore_logout b a)) = signed_out"
  by (simp add: authStore_logout_def Let_def signed_out_def)

lemma logout_authStorage:
  "authStorage (snd (authStore_logout b a)) = Some (partialize signed_out)"
  by (simp add: authStore_logout_def Let_def signed_out_def partialize_def)

lemma logout_cleared: "credentials_cleared (snd (authStore_logout b a))"
  by (simp add: authStore_logout_def Let_def credentials_cleared_def)

lemma refreshToken_action_none:
  "\<not> slot_truthy (auth_state.refreshToken (authStore a)) \<Longrightarrow>
   refreshToken_action b a = (Inl (Error ''No refresh token available''), a)"
  by (simp add: refreshToken_action_def)

lemma refreshToken_action_failure:
  assumes "slot_truthy (auth_state.refreshToken (authStore a))"
    and "fst (api_post b (refreshH b) ''/auth/refresh''
                (RefreshData (slot_json (auth_state.refreshToken (authStore a)))) a) = Inl err"
  shows "fst (refreshToken_action b a) = Inl err"
    and "authStore (snd (refreshToken_action b a)) =
           (authStore a)\<lparr>auth_state.user := None, auth_state.token := None,
                          auth_state.refreshToken := RefreshValue None,
                          auth_state.isAuthenticated := False\<rparr>"
    and "localStorage (snd (refreshToken_action b a)) =
           localStorage
             (snd (api_post b (refreshH b) ''/auth/refresh''
                     (RefreshData (slot_json (auth_state.refreshToken (authStore a)))) a))"
    and "authStorage (snd (refreshToken_action b a)) =
           Some \<lparr>persisted_auth.user = None, persisted_auth.token = None,
                 persisted_auth.refreshToken = None,
                 persisted_auth.isAuthenticated = False\<rparr>"
proof -
  let ?d = "RefreshData (slot_json (auth_state.refreshToken (authStore a)))"
  obtain r a1 where c: "api_post b (refreshH b) ''/auth/refresh'' ?d a = (r, a1)"
    by (cases "api_post b (refreshH b) ''/auth/refresh'' ?d a")
  with assms(2) have r: "r = Inl err" by simp
  have s: "authStore a1 = authStore a"
    using authStore_api_post[of b "refreshH b" "''/auth/refresh''" ?d a]
    unfolding c by simp
  show "fst (refreshToken_action b a) = Inl err"
    by (simp add: refreshToken_action_def assms(1) c r)
  show "authStore (snd (refreshToken_action b a)) =
           (authStore a)\<lparr>auth_state.user := None, auth_state.token := None,
                          auth_state.refreshToken := RefreshValue None,
                          auth_state.isAuthenticated := False\<rparr>"
    by (simp add: refreshToken_action_def assms(1) c r s)
  show "localStorage (snd (refreshToken_action b a)) =
           localStorage (snd (api_post b (refreshH b) ''/auth/refresh'' ?d a))"
    by (simp add: refreshToken_action_def assms(1) c r)
  show "authStorage (snd (refreshToken_action b a)) =
           Some \<lparr>persisted_auth.user = None, persisted_auth.token = None,
                 persisted_auth.refreshToken = None,
                 persisted_auth.isAuthenticated = False\<rparr>"
    by (simp add: refreshToken_action_def assms(1) c r partialize_def)
qed

lemma refreshToken_action_success:
  assumes "slot_truthy (auth_state.refreshToken (authStore a))"
    and "fst (api_post b (refreshH b) ''/auth/refresh''
                (RefreshData (slot_json (auth_state.refreshToken (authStore a)))) a) = Inr resp"
  shows "fst (refreshToken_action b a) = Inr ()"
    and "authStore (snd (refreshToken_action b a)) =
           (authStore a)\<lparr>auth_state.token :=
                            Some (refresh_response.accessToken (body.data resp)),
                          auth_state.user :=
                            Some (refresh_response.userInfo (body.data resp)),
                          auth_state.isAuthenticated := True\<rparr>"
proof -
  let ?d = "RefreshData (slot_json (auth_state.refreshToken (authStore a)))"
  obtain r a1 where c: "api_post b (refreshH b) ''/auth/refresh'' ?d a = (r, a1)"
    by (cases "api_post b (refreshH b) ''/auth/refresh'' ?d a")
  with assms(2) have r: "r = Inr resp" by simp
  have s: "authStore a1 = authStore a"
    using authStore_api_post[of b "refreshH b" "''/auth/refresh''" ?d a]
    unfolding c by simp
  show "fst (refreshToken_action b a) = Inr ()"
    by (simp add: refreshToken_action_def Let_def assms(1) c r)
  show "authStore (snd (refreshToken_action b a)) =
           (authStore a)\<lparr>auth_state.token :=
                            Some (refresh_response.accessToken (body.data resp)),
                          auth_state.user :=
                            Some (refresh_response.userInfo (body.data resp)),
                          auth_state.isAuthenticated := True\<rparr>"
    by (simp add: refreshToken_action_def Let_def assms(1) c r s)
qed

lemma refreshToken_action_invariant:
  "session_invariant (authStore a) \<Longrightarrow>
   session_invariant (authStore (snd (refreshToken_action b a)))"
proof (cases "slot_truthy (auth_state.refreshToken (authStore a))")
  case False
  assume "session_invariant (authStore a)"
  with False show ?thesis by (simp add: refreshToken_action_none)
next
  case True
  show ?thesis
  proof (cases "fst (api_post b (refreshH b) ''/auth/refresh''
                (RefreshData (slot_json (auth_state.refreshToken (authStore a)))) a)")
    case (Inl err)
    from refreshToken_action_failure(2)[OF True Inl] show ?thesis
      by (simp add: session_invariant_def)
  next
    case (Inr resp)
    from refreshToken_action_success(2)[OF True Inr] show ?thesis
      by (simp add: session_invariant_def)
  qed
qed

lemma refreshToken_not_callable:
  "auth_state.refreshToken (authStore a) = RefreshValue v \<Longrightarrow>
   authStore_refreshToken b a = (Inl (TypeError ''refreshToken is not a function''), a)"
  by (simp add: authStore_refreshToken_def)

lemma refreshToken_callable:
  "auth_state.refreshToken (authStore a) = RefreshAction \<Longrightarrow>
   authStore_refreshToken b a = refreshToken_action b a"
  by (simp add: authStore_refreshToken_def)

lemma refreshToken_invariant:
  "session_invariant (authStore a) \<Longrightarrow>
   session_invariant (authStore (snd (authStore_refreshToken b a)))"
  by (cases "auth_state.refreshToken (authStore a)")
     (simp_all add: refreshToken_callable refreshToken_not_callable
        refreshToken_action_invariant)

lemma login_invariant:
  "session_invariant (authStore a) \<Longrightarrow>
   session_invariant (authStore (snd (authStore_login b credentials a)))"
proof (cases "fst (api_login b (login_request.email credentials)
             (login_request.password credentials)
             (set_auth (\<lambda>s. s\<lparr>auth_state.isLoading := True\<rparr>) a))")
  case (Inl err)
  assume "session_invariant (authStore a)"
  with login_failure(2)[OF Inl] show ?thesis
    by (simp add: session_invariant_def)
next
  case (Inr resp)
  from login_success(2)[OF Inr] show ?thesis
    by (simp add: session_invariant_def)
qed

section \<open>Lemmas on the user store\<close>

lemma userStore_set_users [simp]: "userStore (set_users f a) = f (userStore a)"
  by (simp add: set_users_def)

lemma userStore_log [simp]: "userStore (log e a) = userStore a"
  by (simp add: log_def)

lemma frame_api_createUser: "frame a (snd (api_createUser b userData a))"
  unfolding api_createUser_def by (rule frame_api_post)

lemma frame_api_updateUser: "frame a (snd (api_updateUser b uid userData a))"
  unfolding api_updateUser_def by (rule frame_api_put)

lemma createUser_success:
  assumes "fst (api_createUser b userData
             (set_users (\<lambda>s. s\<lparr>user_state.isLoading := True, user_state.error := None\<rparr>) a)) =
           Inr resp"
  shows "fst (userStore_createUser b userData a) = Inr ()"
    and "userStore (snd (userStore_createUser b userData a)) =
           (userStore a)\<lparr>users := users (userStore a) @ [body.data resp],
                          user_state.isLoading := False, user_state.error := None\<rparr>"
proof -
  let ?a1 = "set_users (\<lambda>s. s\<lparr>user_state.isLoading := True, user_state.error := None\<rparr>) a"
  obtain r a2 where c: "api_createUser b userData ?a1 = (r, a2)"
    by (cases "api_createUser b userData ?a1")
  with assms have r: "r = Inr resp" by simp
  have "userStore a2 = userStore ?a1"
    using frame_userStore[OF frame_api_createUser[of ?a1 b userData]] unfolding c by simp
  then have s: "userStore a2 =
      (userStore a)\<lparr>user_state.isLoading := True, user_state.error := None\<rparr>"
    by simp
  show "fst (userStore_createUser b userData a) = Inr ()"
    by (simp add: userStore_createUser_def Let_def c r)
  show "userStore (snd (userStore_createUser b userData a)) =
           (userStore a)\<lparr>users := users (userStore a) @ [body.data resp],
                          user_state.isLoading := False, user_state.error := None\<rparr>"
    by (simp add: userStore_createUser_def Let_def c r s)
qed

lemma updateUser_success:
  assumes "fst (api_updateUser b uid userData
             (set_users (\<lambda>s. s\<lparr>user_state.isLoading := True, user_state.error := None\<rparr>) a)) =
           Inr resp"
  shows "fst (userStore_updateUser b uid userData a) = Inr ()"
    and "userStore (snd (userStore_updateUser b uid userData a)) =
           (userStore a)
             \<lparr>users := map (\<lambda>u. if user.userId u = uid then body.data resp else u)
                         (users (userStore a)),
              currentUser :=
                (case currentUser (userStore a) of
                   None \<Rightarrow> None
                 | Some c \<Rightarrow> if user.userId c = uid then Some (body.data resp) else Some c),
              user_state.isLoading := False, user_state.error := None\<rparr>"
proof -
  let ?a1 = "set_users (\<lambda>s. s\<lparr>user_state.isLoading := True, user_state.error := None\<rparr>) a"
  obtain r a2 where c: "api_updateUser b uid userData ?a1 = (r, a2)"
    by (cases "api_updateUser b uid userData ?a1")
  with assms have r: "r = Inr resp" by simp
  have "userStore a2 = userStore ?a1"
    using frame_userStore[OF frame_api_updateUser[of ?a1 b uid userData]] unfolding c by simp
  then have s: "userStore a2 =
      (userStore a)\<lparr>user_state.isLoading := True, user_state.error := None\<rparr>"
    by simp
  show "fst (userStore_updateUser b uid userData a) = Inr ()"
    by (simp add: userStore_updateUser_def Let_def c r)
  show "userStore (snd (userStore_updateUser b uid userData a)) =
           (userStore a)
             \<lparr>users := map (\<lambda>u. if user.userId u = uid then body.data resp else u)
                         (users (userStore a)),
              currentUser :=
                (case currentUser (userStore a) of
                   None \<Rightarrow> None
                 | Some c \<Rightarrow> if user.userId c = uid then Some (body.data resp) else Some c),
              user_state.isLoading := False, user_state.error := None\<rparr>"
    by (simp add: userStore_updateUser_def Let_def c r s)
qed

section \<open>Lemmas on the first state change and on the authorization store\<close>

lemma extends_refl [simp]: "extends a a"
  by (simp add: extends_def)

lemma extends_trans: "extends a a' \<Longrightarrow> extends a' a'' \<Longrightarrow> extends a a''"
  by (auto simp add: extends_def)

lemma frame_extends: "frame a a' \<Longrightarrow> extends a a'"
  by (simp add: frame_def extends_def)

lemma extends_log: "extends a a' \<Longrightarrow> extends a (log e a')"
  by (auto simp add: extends_def log_def)

lemma extends_set_users: "extends a a' \<Longrightarrow> extends a (set_users f a')"
  by (auto simp add: extends_def set_users_def)

lemma extends_set_authorization: "extends a a' \<Longrightarrow> extends a (set_authorization f a')"
  by (auto simp add: extends_def set_authorization_def)

lemma extends_users_failed: "extends a a' \<Longrightarrow> extends a (users_failed m err a')"
  unfolding users_failed_def by (intro extends_log extends_set_users)

lemma extends_authorization_failed:
  "extends a a' \<Longrightarrow> extends a (authorization_failed m err a')"
  unfolding authorization_failed_def by (intro extends_set_authorization)

lemma first_set_users:
  "extends (set_users f a) a' \<Longrightarrow>
   \<exists>es. trace a' = trace a @ SetUsers (f (userStore a)) # es"
  by (auto simp add: extends_def set_users_def)

lemma first_set_authorization:
  "extends (set_authorization f a) a' \<Longrightarrow>
   \<exists>es. trace a' = trace a @ SetAuthorization (f (authorizationStore a)) # es"
  by (auto simp add: extends_def set_authorization_def)

lemmas api_defs =
  api_getUsers_def api_getUserById_def api_createUser_def api_updateUser_def
  api_deleteUser_def api_getRoles_def api_createRole_def api_getPermissions_def
  api_createPermission_def api_assignRole_def api_revokeRole_def api_getUserRoles_def
  api_getUserPermissions_def api_checkPermission_def

lemmas extends_after =
  extends_log extends_set_users extends_set_authorization extends_users_failed
  extends_authorization_failed

lemma fetchUsers_extends:
  "extends (set_users (\<lambda>s. s\<lparr>user_state.isLoading := True, user_state.error := None\<rparr>) a)
     (snd (userStore_fetchUsers b a))"
  by (auto simp add: userStore_fetchUsers_def Let_def api_defs split: prod.splits sum.splits
        intro!: extends_after dest!: api_frames frame_extends)

lemma fetchUserById_extends:
  "extends (set_users (\<lambda>s. s\<lparr>user_state.isLoading := True, user_state.error := None\<rparr>) a)
     (snd (userStore_fetchUserById b uid a))"
  by (auto simp add: userStore_fetchUserById_def Let_def api_defs split: prod.splits sum.splits
        intro!: extends_after dest!: api_frames frame_extends)

lemma createUser_extends:
  "extends (set_users (\<lambda>s. s\<lparr>user_state.isLoading := True, user_state.error := None\<rparr>) a)
     (snd (userStore_createUser b userData a))"
  by (auto simp add: userStore_createUser_def Let_def api_defs split: prod.splits sum.splits
        intro!: extends_after dest!: api_frames frame_extends)

lemma updateUser_extends:
  "extends (set_users (\<lambda>s. s\<lparr>user_state.isLoading := True, user_state.error := None\<rparr>) a)
     (snd (userStore_updateUser b uid userData a))"
  by (auto simp add: userStore_updateUser_def Let_def api_defs split: prod.splits sum.splits
        intro!: extends_after dest!: api_frames frame_extends)

lemma deleteUser_extends:
  "extends (set_users (\<lambda>s. s\<lparr>user_state.isLoading := True, user_state.error := None\<rparr>) a)
     (snd (userStore_deleteUser b uid a))"
  by (auto simp add: userStore_deleteUser_def Let_def api_defs split: prod.splits sum.splits
        intro!: extends_after dest!: api_frames frame_extends)

lemma fetchRoles_extends:
  "extends (set_authorization
              (\<lambda>s. s\<lparr>authorization_state.isLoading := True,
                      authorization_state.error := None\<rparr>) a)
     (snd (authorizationStore_fetchRoles b a))"
  by (auto simp add: authorizationStore_fetchRoles_def Let_def api_defs
        split: prod.splits sum.splits
        intro!: extends_after dest!: api_frames frame_extends)

lemma fetchPermissions_extends:
  "extends (set_authorization
              (\<lambda>s. s\<lparr>authorization_state.isLoading := True,
                      authorization_state.error := None\<rparr>) a)
     (snd (authorizationStore_fetchPermissions b a))"
  by (auto simp add: authorizationStore_fetchPermissions_def Let_def api_defs
        split: prod.splits sum.splits
        intro!: extends_after dest!: api_frames frame_extends)

lemma createRole_extends:
  "extends (set_authorization
              (\<lambda>s. s\<lparr>authorization_state.isLoading := True,
                      authorization_state.error := None\<rparr>) a)
     (snd (authorizationStore_createRole b roleData a))"
  by (auto simp add: authorizationStore_createRole_def Let_def api_defs
        split: prod.splits sum.splits
        intro!: extends_after dest!: api_frames frame_extends)

lemma createPermission_extends:
  "extends (set_authorization
              (\<lambda>s. s\<lparr>authorization_state.isLoading := True,
                      authorization_state.error := None\<rparr>) a)
     (snd (authorizationStore_createPermission b permissionData a))"
  by (auto simp add: authorizationStore_createPermission_def Let_def api_defs
        split: prod.splits sum.splits
        intro!: extends_after dest!: api_frames frame_extends)

lemma authorizationStore_set_authorization [simp]:
  "authorizationStore (set_authorization f a) = f (authorizationStore a)"
  by (simp add: set_authorization_def)

lemma authorizationStore_log [simp]: "authorizationStore (log e a) = authorizationStore a"
  by (simp add: log_def)

lemma trace_log [simp]: "trace (log e a) = trace a @ [e]"
  by (simp add: log_def)

lemma fetchUserRoles_fst: "fst (authorizationStore_fetchUserRoles b uid a) = Inr ()"
  by (simp add: authorizationStore_fetchUserRoles_def split: prod.splits sum.splits)

lemma fetchUserPermissions_fst: "fst (authorizationStore_fetchUserPermissions b uid a) = Inr ()"
  by (simp add: authorizationStore_fetchUserPermissions_def split: prod.splits sum.splits)

lemma fetchUserRoles_store:
  "authorizationStore (snd (authorizationStore_fetchUserRoles b uid a)) =
     (case fst (api_getUserRoles b uid a) of
        Inr resp \<Rightarrow>
          (authorizationStore a)
            \<lparr>userRoles := (userRoles (authorizationStore a))(uid \<mapsto> body.data resp)\<rparr>
      | Inl err \<Rightarrow> authorizationStore a)"
  by (auto simp add: authorizationStore_fetchUserRoles_def api_getUserRoles_def
        split: prod.splits sum.splits dest!: api_frames frame_authorizationStore)

lemma fetchUserPermissions_store:
  "authorizationStore (snd (authorizationStore_fetchUserPermissions b uid a)) =
     (case fst (api_getUserPermissions b uid a) of
        Inr resp \<Rightarrow>
          (authorizationStore a)
            \<lparr>userPermissions :=
               (userPermissions (authorizationStore a))(uid \<mapsto> body.data resp)\<rparr>
      | Inl err \<Rightarrow> authorizationStore a)"
  by (auto simp add: authorizationStore_fetchUserPermissions_def api_getUserPermissions_def
        split: prod.splits sum.splits dest!: api_frames frame_authorizationStore)

lemma assignRole_store:
  "authorizationStore (snd (authorizationStore_assignRole b uid rid a)) =
     (case fst (api_assignRole b uid rid a) of
        Inr resp \<Rightarrow>
          authorizationStore
            (snd (authorizationStore_fetchUserRoles b uid (snd (api_assignRole b uid rid a))))
      | Inl err \<Rightarrow> authorizationStore a)"
  using fetchUserRoles_fst[of b uid "snd (api_assignRole b uid rid a)"]
  by (auto simp add: authorizationStore_assignRole_def api_assignRole_def
        split: prod.splits sum.splits dest!: api_frames frame_authorizationStore)

lemma revokeRole_store:
  "authorizationStore (snd (authorizationStore_revokeRole b uid rid a)) =
     (case fst (api_revokeRole b uid rid a) of
        Inr resp \<Rightarrow>
          authorizationStore
            (snd (authorizationStore_fetchUserRoles b uid (snd (api_revokeRole b uid rid a))))
      | Inl err \<Rightarrow> authorizationStore a)"
  using fetchUserRoles_fst[of b uid "snd (api_revokeRole b uid rid a)"]
  by (auto simp add: authorizationStore_revokeRole_def api_revokeRole_def
        split: prod.splits sum.splits dest!: api_frames frame_authorizationStore)

lemma authorizationStore_api_assignRole:
  "authorizationStore (snd (api_assignRole b uid rid a)) = authorizationStore a"
  unfolding api_assignRole_def by (rule frame_authorizationStore) (rule frame_api_post)

lemma authorizationStore_api_revokeRole:
  "authorizationStore (snd (api_revokeRole b uid rid a)) = authorizationStore a"
  unfolding api_revokeRole_def by (rule frame_authorizationStore) (rule frame_api_delete)

lemma fetchUserRoles_pending:
  "authorization_state.isLoading
     (authorizationStore (snd (authorizationStore_fetchUserRoles b uid a))) =
     authorization_state.isLoading (authorizationStore a) \<and>
   authorization_state.error
     (authorizationStore (snd (authorizationStore_fetchUserRoles b uid a))) =
     authorization_state.error (authorizationStore a)"
  by (simp add: fetchUserRoles_store split: sum.splits)

lemma fetchUserPermissions_pending:
  "authorization_state.isLoading
     (authorizationStore (snd (authorizationStore_fetchUserPermissions b uid a))) =
     authorization_state.isLoading (authorizationStore a) \<and>
   authorization_state.error
     (authorizationStore (snd (authorizationStore_fetchUserPermissions b uid a))) =
     authorization_state.error (authorizationStore a)"
  by (simp add: fetchUserPermissions_store split: sum.splits)

lemma assignRole_pending:
  "authorization_state.isLoading
     (authorizationStore (snd (authorizationStore_assignRole b uid rid a))) =
     authorization_state.isLoading (authorizationStore a) \<and>
   authorization_state.error
     (authorizationStore (snd (authorizationStore_assignRole b uid rid a))) =
     authorization_state.error (authorizationStore a)"
  by (simp add: assignRole_store fetchUserRoles_pending authorizationStore_api_assignRole
        split: sum.splits)

lemma revokeRole_pending:
  "authorization_state.isLoading
     (authorizationStore (snd (authorizationStore_revokeRole b uid rid a))) =
     authorization_state.isLoading (authorizationStore a) \<and>
   authorization_state.error
     (authorizationStore (snd (authorizationStore_revokeRole b uid rid a))) =
     authorization_state.error (authorizationStore a)"
  by (simp add: revokeRole_store fetchUserRoles_pending authorizationStore_api_revokeRole
        split: sum.splits)

section \<open>The scenarios evaluated\<close>

lemma stored_interceptor:
  "tok \<noteq> [] \<Longrightarrow> request_interceptor (stored tok rt) users_request =
     users_request\<lparr>authorization := Some (''Bearer '' @ tok)\<rparr>"
  by (simp add: request_interceptor_def stored_def setItem_def getItem_def)

lemma stored_refreshToken: "getItem ''refreshToken'' (stored tok rt) = Some rt"
  by (simp add: stored_def setItem_def getItem_def)

lemma stored_localStorage:
  "localStorage (stored tok rt) = [''accessToken'' \<mapsto> tok, ''refreshToken'' \<mapsto> rt]"
  by (simp add: stored_def setItem_def fresh_app_def)

lemma fresh_interceptor: "request_interceptor fresh_app users_request = users_request"
  by (simp add: request_interceptor_def getItem_def fresh_app_def)

lemma fresh_refreshToken: "getItem ''refreshToken'' fresh_app = None"
  by (simp add: getItem_def fresh_app_def)

lemma signed_in_app_simps [simp]:
  "authStore signed_in_app = signed_in"
  "server signed_in_app = ()"
  "getItem ''accessToken'' signed_in_app = Some ''t1''"
  "getItem ''refreshToken'' signed_in_app = Some ''r1''"
  "localStorage signed_in_app = localStorage (stored ''t1'' ''r1'')"
  by (simp_all add: signed_in_app_def stored_def setItem_def getItem_def)

lemma getItem_other_errors [simp]: "getItem k (other_errors err a) = getItem k a"
  by (simp add: getItem_def)

lemma request_interceptor_set_auth [simp]:
  "request_interceptor (set_auth f a) cfg = request_interceptor a cfg"
  by (simp add: request_interceptor_def)

lemma server_set_auth [simp]: "server (set_auth f a) = server a"
  by (simp add: set_auth_def)

lemma offline_login:
  "fst (api_login offline_backend em pw a) =
     Inl (Axios \<lparr>config =
                    request_interceptor a
                      \<lparr>verb = POST, url = ''/api/v1/auth/login'',
                       request.data = LoginData em pw, authorization = None,
                       retry = False\<rparr>,
                  response = None, message = ''Network Error''\<rparr>)"
  by (simp add: api_login_def api_post_def baseURL_def offline_backend_def
        client_no_response[where sv = "server a"])

lemma offline_refresh:
  "api_post offline_backend (refreshH offline_backend) ''/auth/refresh'' d a =
     (Inl (Axios \<lparr>config =
                    request_interceptor a
                      \<lparr>verb = POST, url = ''/api/v1/auth/refresh'',
                       request.data = d, authorization = None,
                       retry = False\<rparr>,
                  response = None, message = ''Network Error''\<rparr>),
      other_errors
        \<lparr>config =
           request_interceptor a
             \<lparr>verb = POST, url = ''/api/v1/auth/refresh'',
              request.data = d, authorization = None, retry = False\<rparr>,
         response = None, message = ''Network Error''\<rparr>
        ((log (Sent (request_interceptor a
             \<lparr>verb = POST, url = ''/api/v1/auth/refresh'',
              request.data = d, authorization = None, retry = False\<rparr>)) a)
           \<lparr>server := server a\<rparr>))"
  by (simp add: api_post_def baseURL_def offline_backend_def
        client_no_response[where sv = "server a"])

lemma user_backend_createUser:
  "fst (api_createUser (user_backend u) userData a) =
     Inr \<lparr>body.data = u, body.accessToken = None\<rparr>"
  by (simp add: api_createUser_def api_post_def user_backend_def
        client_fulfilled[where sv = "server a"])

lemma user_backend_updateUser:
  "fst (api_updateUser (user_backend u) uid userData a) =
     Inr \<lparr>body.data = u, body.accessToken = None\<rparr>"
  by (simp add: api_updateUser_def api_put_def user_backend_def
        client_fulfilled[where sv = "server a"])

lemma with_users_simps [simp]:
  "users (userStore (with_users us cur)) = us"
  "currentUser (userStore (with_users us cur)) = cur"
  by (simp_all add: with_users_def)

lemma no_token_interceptor:
  "localStorage a ''accessToken'' = None \<Longrightarrow> request_interceptor a cfg = cfg"
  by (simp add: request_interceptor_def getItem_def)

lemma cached_app_simps [simp]:
  "localStorage cached_app = Map.empty"
  "trace cached_app = []"
  "authorizationStore cached_app = cached_authorization"
  by (simp_all add: cached_app_def fresh_app_def)

lemma sent_simps [simp]:
  "localStorage (a\<lparr>server := sv\<rparr>) = localStorage a"
  "trace (a\<lparr>server := sv\<rparr>) = trace a"
  "authorizationStore (a\<lparr>server := sv\<rparr>) = authorizationStore a"
  by simp_all

lemma assign_cached:
  "voidH b = void_ok \<Longrightarrow>
   api_assignRole b ''u7'' ''r-admin'' cached_app =
     (Inr \<lparr>body.data = (), body.accessToken = None\<rparr>,
      (log (Sent assign_request) cached_app)\<lparr>server := ()\<rparr>)"
  by (simp add: api_assignRole_def api_post_def baseURL_def void_ok_def assign_request_def
        no_token_interceptor client_fulfilled[where sv = "()"])

lemma revoke_cached:
  "voidH b = void_ok \<Longrightarrow>
   api_revokeRole b ''u7'' ''r-admin'' cached_app =
     (Inr \<lparr>body.data = (), body.accessToken = None\<rparr>,
      (log (Sent revoke_request) cached_app)\<lparr>server := ()\<rparr>)"
  by (simp add: api_revokeRole_def api_delete_def baseURL_def void_ok_def revoke_request_def
        no_token_interceptor client_fulfilled[where sv = "()"])

lemma roles_offline:
  "rolesH b = rolesH offline_backend \<Longrightarrow> localStorage a ''accessToken'' = None \<Longrightarrow>
   fst (api_getUserRoles b ''u7'' a) = Inl (network_error roles_request)"
  by (simp add: api_getUserRoles_def api_get_def baseURL_def offline_backend_def
        roles_request_def network_error_def no_token_interceptor
        client_no_response[where sv = "server a"])

lemma permissions_offline:
  "permissionsH b = permissionsH offline_backend \<Longrightarrow> localStorage a ''accessToken'' = None \<Longrightarrow>
   fst (api_getUserPermissions b ''u7'' a) = Inl (network_error permissions_request)"
  by (simp add: api_getUserPermissions_def api_get_def baseURL_def offline_backend_def
        permissions_request_def network_error_def no_token_interceptor
        client_no_response[where sv = "server a"])

lemma roles_fulfilled:
  "rolesH b = roles_ok \<Longrightarrow> localStorage a ''accessToken'' = None \<Longrightarrow>
   api_getUserRoles b ''u7'' a =
     (Inr \<lparr>body.data = [viewer, admin], body.accessToken = None\<rparr>,
      (log (Sent roles_request) a)\<lparr>server := server a\<rparr>)"
  by (simp add: api_getUserRoles_def api_get_def baseURL_def roles_ok_def roles_request_def
        no_token_interceptor client_fulfilled[where sv = "server a"])

lemma check_offline:
  "fst (api_checkPermission offline_backend uid res act a) =
     Inl (network_error
            (request_interceptor a
               \<lparr>verb = POST, url = ''/api/v1/authorization/check-permission'',
                request.data = CheckPermissionData uid res act, authorization = None,
                retry = False\<rparr>))"
  by (simp add: api_checkPermission_def api_post_def baseURL_def offline_backend_def
        network_error_def client_no_response[where sv = "server a"])

lemma check_granted:
  "fst (api_checkPermission granting_backend uid res act a) =
     Inr \<lparr>body.data = read_users_granted, body.accessToken = None\<rparr>"
  by (simp add: api_checkPermission_def api_post_def granting_backend_def
        client_fulfilled[where sv = "server a"])

lemma login_backend_login:
  "fst (api_login login_backend em pw a) =
     Inr \<lparr>body.data =
            \<lparr>login_response.accessToken = ''t1'', login_response.refreshToken = ''r1'',
             tokenType = ''Bearer'', expiresIn = 3600, login_response.userInfo = alice,
             loginAt = ''2024-01-01T00:00:00Z''\<rparr>,
          body.accessToken = None\<rparr>"
  by (simp add: api_login_def api_post_def login_backend_def login_ok_def
        client_fulfilled[where sv = "server a"])

section \<open>Results on the HTTP client: refresh and replay on a 401\<close>

text \<open>
  Claim C1, as amended. A request that is not flagged as a retry and is answered with
  status 401 leads to at most one refresh call and at most one replay, in this order,
  and the client never touches the session store or its persisted snapshot. With no
  refresh token in storage (absent or empty) there is no refresh and no replay, the
  storage is left as it was and the 401 is rejected to the caller. With a refresh
  token in storage the client makes exactly one refresh call. If that call is
  fulfilled, the new token is the text of the \<open>accessToken\<close> property at the top of
  the reply's body, which is the text \<open>undefined\<close> when the body has no such property;
  the client writes that text under the storage key \<open>accessToken\<close>, changes no other
  key, replays the request exactly once, flagged and with that text as bearer token,
  and the caller gets the outcome of the replay, whatever it is, with no further
  refresh or replay and with no credential removed. If the refresh call fails there is
  no replay, the keys \<open>accessToken\<close>, \<open>refreshToken\<close> and \<open>user\<close> are removed
  from storage, the location is set to the login page and the refresh call's error is
  rejected to the caller.
\<close>

theorem unflagged_401_one_refresh_one_replay:
  assumes "\<not> retry cfg"
    and "h (server a) (request_interceptor a cfg) = (Rejected 401 e, sv)"
  shows
    "let first = request_interceptor a cfg;
         outcome = client b h cfg a;
         net = network_since a (snd outcome)
     in authStore (snd outcome) = authStore a \<and>
        authStorage (snd outcome) = authStorage a \<and>
        (\<not> truthy (getItem ''refreshToken'' a) \<longrightarrow>
           net = [Sent first] \<and>
           fst outcome =
             Inl (Axios \<lparr>config = first\<lparr>retry := True\<rparr>, response = Some (401, e),
                          message = status_message 401\<rparr>) \<and>
           localStorage (snd outcome) = localStorage a) \<and>
        (\<forall>rt. getItem ''refreshToken'' a = Some rt \<and> rt \<noteq> [] \<longrightarrow>
           (case refreshH b sv (refresh_request rt) of
              (Fulfilled bd, sv') \<Rightarrow>
                (let replay =
                       first\<lparr>retry := True,
                             authorization :=
                               Some (''Bearer '' @ js_string (body.accessToken bd))\<rparr>
                 in net = [Sent first, Refresh rt, Sent replay] \<and>
                    fst outcome =
                      (case fst (h sv' replay) of
                         Fulfilled bd' \<Rightarrow> Inr bd'
                       | Rejected st e' \<Rightarrow>
                           Inl (Axios \<lparr>config = replay, response = Some (st, e'),
                                        message = status_message st\<rparr>)
                       | NoResponse msg \<Rightarrow>
                           Inl (Axios \<lparr>config = replay, response = None, message = msg\<rparr>)) \<and>
                    localStorage (snd outcome) =
                      (localStorage a)
                        (''accessToken'' \<mapsto> js_string (body.accessToken bd)))
            | (Rejected st e', sv') \<Rightarrow>
                net = [Sent first, Refresh rt] \<and>
                fst outcome =
                  Inl (Axios \<lparr>config = refresh_request rt, response = Some (st, e'),
                               message = status_message st\<rparr>) \<and>
                credentials_cleared (snd outcome) \<and> href (snd outcome) = ''/login''
            | (NoResponse msg, sv') \<Rightarrow>
                net = [Sent first, Refresh rt] \<and>
                fst outcome =
                  Inl (Axios \<lparr>config = refresh_request rt, response = None,
                               message = msg\<rparr>) \<and>
                credentials_cleared (snd outcome) \<and> href (snd outcome) = ''/login''))"
proof -
  let ?first = "request_interceptor a cfg"
  let ?a1 = "(log (Sent ?first) a)\<lparr>server := sv\<rparr>"
  have fr: "authStore (snd (client b h cfg a)) = authStore a"
    "authStorage (snd (client b h cfg a)) = authStorage a"
    using client_frame[of a b h cfg] by (simp_all add: frame_def)
  have none: "\<not> truthy (getItem ''refreshToken'' a) \<Longrightarrow>
      network_since a (snd (client b h cfg a)) = [Sent ?first] \<and>
      fst (client b h cfg a) =
        Inl (Axios \<lparr>config = ?first\<lparr>retry := True\<rparr>, response = Some (401, e),
                     message = status_message 401\<rparr>) \<and>
      localStorage (snd (client b h cfg a)) = localStorage a"
    using unflagged_401_no_refresh_token[where cfg=cfg and h=h and a=a and b=b, OF assms]
    by (simp only: simp_thms)
  have some: "case refreshH b sv (refresh_request rt) of
              (Fulfilled bd, sv') \<Rightarrow>
                (let replay =
                       ?first\<lparr>retry := True,
                             authorization :=
                               Some (''Bearer '' @ js_string (body.accessToken bd))\<rparr>
                 in network_since a (snd (client b h cfg a)) = [Sent ?first, Refresh rt, Sent replay] \<and>
                    fst (client b h cfg a) =
                      (case fst (h sv' replay) of
                         Fulfilled bd' \<Rightarrow> Inr bd'
                       | Rejected st e' \<Rightarrow>
                           Inl (Axios \<lparr>config = replay, response = Some (st, e'),
                                        message = status_message st\<rparr>)
                       | NoResponse msg \<Rightarrow>
                           Inl (Axios \<lparr>config = replay, response = None, message = msg\<rparr>)) \<and>
                    localStorage (snd (client b h cfg a)) =
                      (localStorage a)
                        (''accessToken'' \<mapsto> js_string (body.accessToken bd)))
            | (Rejected st e', sv') \<Rightarrow>
                network_since a (snd (client b h cfg a)) = [Sent ?first, Refresh rt] \<and>
                fst (client b h cfg a) =
                  Inl (Axios \<lparr>config = refresh_request rt, response = Some (st, e'),
                               message = status_message st\<rparr>) \<and>
                credentials_cleared (snd (client b h cfg a)) \<and> href (snd (client b h cfg a)) = ''/login''
            | (NoResponse msg, sv') \<Rightarrow>
                network_since a (snd (client b h cfg a)) = [Sent ?first, Refresh rt] \<and>
                fst (client b h cfg a) =
                  Inl (Axios \<lparr>config = refresh_request rt, response = None,
                               message = msg\<rparr>) \<and>
                credentials_cleared (snd (client b h cfg a)) \<and> href (snd (client b h cfg a)) = ''/login''"
    if rt: "getItem ''refreshToken'' a = Some rt" "rt \<noteq> []" for rt
  proof (cases "refreshH b sv (refresh_request rt)")
    case (Pair rep sv')
    show ?thesis
    proof (cases rep)
      case (Fulfilled bd)
      with Pair have "refreshH b sv (refresh_request rt) = (Fulfilled bd, sv')" by simp
      note F = unflagged_401_replay[where cfg=cfg and h=h and a=a and b=b, OF assms rt this]
      show ?thesis
        unfolding Pair Fulfilled by (simp only: prod.case reply.case Let_def F simp_thms)
    next
      case (Rejected st e')
      with Pair have "adapter (refreshH b) (refresh_request rt) (log (Refresh rt) ?a1) =
          (Inl \<lparr>config = refresh_request rt, response = Some (st, e'),
                 message = status_message st\<rparr>, (log (Refresh rt) ?a1)\<lparr>server := sv'\<rparr>)"
        by (simp add: adapter_def log_def)
      note F = unflagged_401_refresh_failed[where cfg=cfg and h=h and a=a and b=b, OF assms rt this]
      show ?thesis
        unfolding Pair Rejected by (simp only: prod.case reply.case F simp_thms)
    next
      case (NoResponse msg)
      with Pair have "adapter (refreshH b) (refresh_request rt) (log (Refresh rt) ?a1) =
          (Inl \<lparr>config = refresh_request rt, response = None,
                 message = msg\<rparr>, (log (Refresh rt) ?a1)\<lparr>server := sv'\<rparr>)"
        by (simp add: adapter_def log_def)
      note F = unflagged_401_refresh_failed[where cfg=cfg and h=h and a=a and b=b, OF assms rt this]
      show ?thesis
        unfolding Pair NoResponse by (simp only: prod.case reply.case F simp_thms)
    qed
  qed
  show ?thesis
    unfolding Let_def
    apply (rule conjI)
     apply (rule fr(1))
    apply (rule conjI)
     apply (rule fr(2))
    apply (rule conjI)
     apply (rule impI, erule none)
    apply (rule allI, rule impI, erule conjE)
    apply (rule some[unfolded Let_def])
     apply assumption+
    done
qed

text \<open>
  The theorem at four concrete inputs: an expired token that the refresh renews (one
  refresh, one replay, the replay fulfilled, the renewed token stored), a refresh reply
  that carries the token inside \<open>data\<close> only (one refresh, one replay with the bearer
  token \<open>undefined\<close>, which the backend answers with 401 again, and \<open>undefined\<close>
  stored), a refresh token that the backend rejects (one refresh, no replay,
  credentials cleared), and a client with nothing stored (no refresh, no replay).
\<close>

theorem unflagged_401_one_refresh_one_replay_witness:
  "\<not> retry users_request \<and>
   users_if_fresh (server (stored ''stale'' ''r1''))
     (request_interceptor (stored ''stale'' ''r1'') users_request) =
     (Rejected 401 (Some ''Token expired''), ()) \<and>
   getItem ''refreshToken'' (stored ''stale'' ''r1'') = Some ''r1'' \<and>
   network_since (stored ''stale'' ''r1'')
     (snd (client expiring_backend users_if_fresh users_request (stored ''stale'' ''r1''))) =
     [Sent (users_request\<lparr>authorization := Some ''Bearer stale''\<rparr>), Refresh ''r1'',
      Sent (users_request\<lparr>retry := True, authorization := Some ''Bearer fresh''\<rparr>)] \<and>
   fst (client expiring_backend users_if_fresh users_request (stored ''stale'' ''r1'')) =
     Inr \<lparr>body.data = [], body.accessToken = None\<rparr> \<and>
   getItem ''accessToken''
     (snd (client expiring_backend users_if_fresh users_request (stored ''stale'' ''r1''))) =
     Some ''fresh'' \<and>
   getItem ''refreshToken''
     (snd (client expiring_backend users_if_fresh users_request (stored ''stale'' ''r1''))) =
     Some ''r1'' \<and>
   network_since (stored ''stale'' ''r1'')
     (snd (client enveloped_backend users_if_fresh users_request (stored ''stale'' ''r1''))) =
     [Sent (users_request\<lparr>authorization := Some ''Bearer stale''\<rparr>), Refresh ''r1'',
      Sent (users_request\<lparr>retry := True, authorization := Some ''Bearer undefined''\<rparr>)] \<and>
   fst (client enveloped_backend users_if_fresh users_request (stored ''stale'' ''r1'')) =
     Inl (Axios \<lparr>config = users_request\<lparr>retry := True,
                                         authorization := Some ''Bearer undefined''\<rparr>,
                  response = Some (401, Some ''Token expired''),
                  message = ''Request failed with status code 401''\<rparr>) \<and>
   getItem ''accessToken''
     (snd (client enveloped_backend users_if_fresh users_request (stored ''stale'' ''r1''))) =
     Some ''undefined'' \<and>
   getItem ''refreshToken''
     (snd (client enveloped_backend users_if_fresh users_request (stored ''stale'' ''r1''))) =
     Some ''r1'' \<and>
   users_denied (server (stored ''stale'' ''r0''))
     (request_interceptor (stored ''stale'' ''r0'') users_request) =
     (Rejected 401 (Some ''Token expired''), ()) \<and>
   getItem ''refreshToken'' (stored ''stale'' ''r0'') = Some ''r0'' \<and>
   network_since (stored ''stale'' ''r0'')
     (snd (client denying_backend users_denied users_request (stored ''stale'' ''r0''))) =
     [Sent (users_request\<lparr>authorization := Some ''Bearer stale''\<rparr>), Refresh ''r0''] \<and>
   credentials_cleared
     (snd (client denying_backend users_denied users_request (stored ''stale'' ''r0''))) \<and>
   href (snd (client denying_backend users_denied users_request (stored ''stale'' ''r0''))) =
     ''/login'' \<and>
   users_denied (server fresh_app) (request_interceptor fresh_app users_request) =
     (Rejected 401 (Some ''Token expired''), ()) \<and>
   \<not> truthy (getItem ''refreshToken'' fresh_app) \<and>
   network_since fresh_app
     (snd (client denying_backend users_denied users_request fresh_app)) =
     [Sent users_request] \<and>
   authStore (snd (client denying_backend users_denied users_request fresh_app)) =
     authStore fresh_app \<and>
   authStorage (snd (client denying_backend users_denied users_request fresh_app)) =
     authStorage fresh_app"
proof -
  have r: "\<not> retry users_request"
    by (simp add: users_request_def)
  have h1: "users_if_fresh (server (stored ''stale'' ''r1''))
     (request_interceptor (stored ''stale'' ''r1'') users_request) =
     (Rejected 401 (Some ''Token expired''), ())"
    by (simp add: stored_interceptor users_if_fresh_def)
  have h2: "users_denied (server (stored ''stale'' ''r0''))
     (request_interceptor (stored ''stale'' ''r0'') users_request) =
     (Rejected 401 (Some ''Token expired''), ())"
    by (simp add: users_denied_def)
  have h3: "users_denied (server fresh_app) (request_interceptor fresh_app users_request) =
     (Rejected 401 (Some ''Token expired''), ())"
    by (simp add: users_denied_def)
  have w1: "network_since (stored ''stale'' ''r1'')
     (snd (client expiring_backend users_if_fresh users_request (stored ''stale'' ''r1''))) =
     [Sent (users_request\<lparr>authorization := Some ''Bearer stale''\<rparr>), Refresh ''r1'',
      Sent (users_request\<lparr>retry := True, authorization := Some ''Bearer fresh''\<rparr>)] \<and>
   fst (client expiring_backend users_if_fresh users_request (stored ''stale'' ''r1'')) =
     Inr \<lparr>body.data = [], body.accessToken = None\<rparr> \<and>
   localStorage
     (snd (client expiring_backend users_if_fresh users_request (stored ''stale'' ''r1''))) =
     (localStorage (stored ''stale'' ''r1''))(''accessToken'' \<mapsto> ''fresh'')"
    using unflagged_401_one_refresh_one_replay
            [where h = users_if_fresh and b = expiring_backend, OF r h1]
    by (simp add: Let_def stored_refreshToken stored_interceptor expiring_backend_def
          refresh_r1_def refresh_request_def users_if_fresh_def)
  have g1: "getItem ''accessToken''
     (snd (client expiring_backend users_if_fresh users_request (stored ''stale'' ''r1''))) =
     Some ''fresh''"
    "getItem ''refreshToken''
     (snd (client expiring_backend users_if_fresh users_request (stored ''stale'' ''r1''))) =
     Some ''r1''"
    using w1 by (simp_all add: getItem_def stored_localStorage)
  have w4: "network_since (stored ''stale'' ''r1'')
     (snd (client enveloped_backend users_if_fresh users_request (stored ''stale'' ''r1''))) =
     [Sent (users_request\<lparr>authorization := Some ''Bearer stale''\<rparr>), Refresh ''r1'',
      Sent (users_request\<lparr>retry := True, authorization := Some ''Bearer undefined''\<rparr>)] \<and>
   fst (client enveloped_backend users_if_fresh users_request (stored ''stale'' ''r1'')) =
     Inl (Axios \<lparr>config = users_request\<lparr>retry := True,
                                         authorization := Some ''Bearer undefined''\<rparr>,
                  response = Some (401, Some ''Token expired''),
                  message = ''Request failed with status code 401''\<rparr>) \<and>
   localStorage
     (snd (client enveloped_backend users_if_fresh users_request (stored ''stale'' ''r1''))) =
     (localStorage (stored ''stale'' ''r1''))(''accessToken'' \<mapsto> ''undefined'')"
    using unflagged_401_one_refresh_one_replay
            [where h = users_if_fresh and b = enveloped_backend, OF r h1]
    by (simp add: Let_def stored_refreshToken stored_interceptor enveloped_backend_def
          refresh_enveloped_def refresh_request_def users_if_fresh_def status_message_def)
  have g4: "getItem ''accessToken''
     (snd (client enveloped_backend users_if_fresh users_request (stored ''stale'' ''r1''))) =
     Some ''undefined''"
    "getItem ''refreshToken''
     (snd (client enveloped_backend users_if_fresh users_request (stored ''stale'' ''r1''))) =
     Some ''r1''"
    using w4 by (simp_all add: getItem_def stored_localStorage)
  have w2: "network_since (stored ''stale'' ''r0'')
     (snd (client denying_backend users_denied users_request (stored ''stale'' ''r0''))) =
     [Sent (users_request\<lparr>authorization := Some ''Bearer stale''\<rparr>), Refresh ''r0''] \<and>
   credentials_cleared
     (snd (client denying_backend users_denied users_request (stored ''stale'' ''r0''))) \<and>
   href (snd (client denying_backend users_denied users_request (stored ''stale'' ''r0''))) =
     ''/login''"
    using unflagged_401_one_refresh_one_replay
            [where h = users_denied and b = denying_backend, OF r h2]
    by (simp add: Let_def stored_refreshToken stored_interceptor denying_backend_def
          refresh_r1_def refresh_request_def)
  have w3: "network_since fresh_app
     (snd (client denying_backend users_denied users_request fresh_app)) =
     [Sent users_request] \<and>
   authStore (snd (client denying_backend users_denied users_request fresh_app)) =
     authStore fresh_app \<and>
   authStorage (snd (client denying_backend users_denied users_request fresh_app)) =
     authStorage fresh_app"
    using unflagged_401_one_refresh_one_replay
            [where h = users_denied and b = denying_backend, OF r h3]
    by (simp add: Let_def fresh_refreshToken fresh_interceptor)
  from r h1 h2 h3 w1 g1 w4 g4 w2 w3 show ?thesis
    by (simp only: stored_refreshToken fresh_refreshToken truthy.simps simp_thms)
qed

text \<open>
  Claim C1 as stated fails on the code at two inputs. With nothing stored, a 401 for an
  unflagged request is followed by no refresh and no replay. With a refresh token
  stored and a backend that answers the replay with 401 as well, the replay's error
  reaches the caller while the storage keeps the renewed access token and the refresh
  token: the credentials are not cleared.
\<close>

theorem unflagged_401_counterexample:
  "\<not> retry users_request \<and>
   users_denied (server fresh_app) (request_interceptor fresh_app users_request) =
     (Rejected 401 (Some ''Token expired''), ()) \<and>
   network_since fresh_app
     (snd (client denying_backend users_denied users_request fresh_app)) =
     [Sent users_request] \<and>
   users_denied (server (stored ''stale'' ''r1''))
     (request_interceptor (stored ''stale'' ''r1'') users_request) =
     (Rejected 401 (Some ''Token expired''), ()) \<and>
   fst (client denying_backend users_denied users_request (stored ''stale'' ''r1'')) =
     Inl (Axios \<lparr>config = users_request\<lparr>retry := True,
                                         authorization := Some ''Bearer fresh''\<rparr>,
                  response = Some (401, Some ''Token expired''),
                  message = ''Request failed with status code 401''\<rparr>) \<and>
   getItem ''accessToken''
     (snd (client denying_backend users_denied users_request (stored ''stale'' ''r1''))) =
     Some ''fresh'' \<and>
   getItem ''refreshToken''
     (snd (client denying_backend users_denied users_request (stored ''stale'' ''r1''))) =
     Some ''r1'' \<and>
   \<not> credentials_cleared
       (snd (client denying_backend users_denied users_request (stored ''stale'' ''r1'')))"
proof -
  have r: "\<not> retry users_request"
    by (simp add: users_request_def)
  have h1: "users_denied (server fresh_app) (request_interceptor fresh_app users_request) =
     (Rejected 401 (Some ''Token expired''), ())"
    by (simp add: users_denied_def)
  have n: "\<not> truthy (getItem ''refreshToken'' fresh_app)"
    by (simp add: fresh_refreshToken)
  have c1: "network_since fresh_app
     (snd (client denying_backend users_denied users_request fresh_app)) =
     [Sent users_request]"
    using unflagged_401_no_refresh_token(1)
            [where h = users_denied and b = denying_backend and a = fresh_app, OF r h1 n]
    by (simp add: fresh_interceptor)
  have h2: "users_denied (server (stored ''stale'' ''r1''))
     (request_interceptor (stored ''stale'' ''r1'') users_request) =
     (Rejected 401 (Some ''Token expired''), ())"
    by (simp add: users_denied_def)
  have rf: "refreshH denying_backend () (refresh_request ''r1'') =
     (Fulfilled \<lparr>body.data = \<lparr>refresh_response.accessToken = ''fresh'',
                          refresh_response.userInfo = alice\<rparr>,
            body.accessToken = Some ''fresh''\<rparr>, ())"
    by (simp add: denying_backend_def refresh_r1_def refresh_request_def)
  note F = unflagged_401_replay(2,3)
            [where h = users_denied and b = denying_backend and a = "stored ''stale'' ''r1''",
             OF r h2 stored_refreshToken _ rf]
  have c2: "fst (client denying_backend users_denied users_request (stored ''stale'' ''r1'')) =
     Inl (Axios \<lparr>config = users_request\<lparr>retry := True,
                                         authorization := Some ''Bearer fresh''\<rparr>,
                  response = Some (401, Some ''Token expired''),
                  message = ''Request failed with status code 401''\<rparr>)"
    using F(1) by (simp add: stored_interceptor users_denied_def status_message_def)
  have c3: "getItem ''accessToken''
     (snd (client denying_backend users_denied users_request (stored ''stale'' ''r1''))) =
     Some ''fresh''"
    "getItem ''refreshToken''
     (snd (client denying_backend users_denied users_request (stored ''stale'' ''r1''))) =
     Some ''r1''"
    using F(2) by (simp_all add: stored_localStorage getItem_def)
  have c4: "\<not> credentials_cleared
       (snd (client denying_backend users_denied users_request (stored ''stale'' ''r1'')))"
    by (simp add: credentials_cleared_def c3)
  from r h1 c1 h2 c2 c3 c4 show ?thesis
    by (simp only: simp_thms)
qed

section \<open>Results on the session store\<close>

text \<open>
  Claim C2. The session invariant, \<open>isAuthenticated\<close> is true iff both the identity
  and the access token are present, holds in the initial state and is preserved by
  every operation of the session store, whatever the backend replies: by \<open>login\<close>
  (fulfilled or failed), \<open>logout\<close>, \<open>refreshToken\<close> (fulfilled, failed, or rejected
  for want of a refresh token), \<open>clearError\<close> and \<open>setLoading\<close>. For \<open>refreshToken\<close>
  this is shown of the call on the store, whatever the slot holds, and of the action
  run in any state by a caller that holds it. Replies are well-formed by their type: a
  fulfilled login or refresh reply carries its tokens and its identity.
\<close>

theorem session_invariant_preserved:
  "session_invariant initial_auth_state \<and>
   (session_invariant (authStore a) \<longrightarrow>
      session_invariant (authStore (snd (authStore_login b credentials a))) \<and>
      session_invariant (authStore (snd (authStore_logout b a))) \<and>
      session_invariant (authStore (snd (authStore_refreshToken b a))) \<and>
      session_invariant (authStore (snd (refreshToken_action b a))) \<and>
      session_invariant (authStore (authStore_clearError a)) \<and>
      session_invariant (authStore (authStore_setLoading loading a)))"
proof -
  have i: "session_invariant initial_auth_state"
    by (simp add: session_invariant_def initial_auth_state_def)
  have o: "session_invariant (authStore (snd (authStore_logout b a)))"
    by (simp add: logout_authStore session_invariant_def signed_out_def)
  have c: "session_invariant (authStore a) \<Longrightarrow>
      session_invariant (authStore (authStore_clearError a)) \<and>
      session_invariant (authStore (authStore_setLoading loading a))"
    by (simp add: session_invariant_def authStore_clearError_def authStore_setLoading_def)
  from i o c login_invariant refreshToken_invariant refreshToken_action_invariant
  show ?thesis
    by blast
qed

text \<open>
  The invariant and its preservation on a signed-in session whose backend is
  unreachable, and on an anonymous one whose login is fulfilled and leaves it
  authenticated.
\<close>

theorem session_invariant_preserved_witness:
  "session_invariant (authStore signed_in_app) \<and>
   session_invariant (authStore (snd (authStore_login offline_backend alice_login signed_in_app))) \<and>
   session_invariant (authStore (snd (authStore_logout offline_backend signed_in_app))) \<and>
   session_invariant (authStore (snd (authStore_refreshToken offline_backend signed_in_app))) \<and>
   session_invariant (authStore (snd (refreshToken_action offline_backend signed_in_app))) \<and>
   session_invariant (authStore (authStore_clearError signed_in_app)) \<and>
   session_invariant (authStore (authStore_setLoading True signed_in_app)) \<and>
   session_invariant (authStore fresh_app) \<and>
   session_invariant (authStore (snd (authStore_login login_backend alice_login fresh_app))) \<and>
   auth_state.isAuthenticated
     (authStore (snd (authStore_login login_backend alice_login fresh_app))) = True \<and>
   auth_state.user (authStore (snd (authStore_login login_backend alice_login fresh_app))) =
     Some alice \<and>
   auth_state.token (authStore (snd (authStore_login login_backend alice_login fresh_app))) =
     Some ''t1''"
proof -
  have h: "session_invariant (authStore signed_in_app)"
    by (simp add: session_invariant_def signed_in_def)
  have i: "session_invariant (authStore fresh_app)"
    by (simp add: session_invariant_def fresh_app_def initial_auth_state_def)
  note L = login_success(2)[OF login_backend_login, of alice_login fresh_app]
  from session_invariant_preserved[of signed_in_app offline_backend alice_login True]
    session_invariant_preserved[of fresh_app login_backend alice_login True] h i L
  show ?thesis by simp
qed

text \<open>
  Claim C3. \<open>logout\<close> never raises, whatever the backend replies to the logout call,
  and always ends with \<open>isAuthenticated\<close> false, the identity, the token and the
  refresh token absent (the slot holds \<open>null\<close>), the three credential keys removed
  from storage, and the persisted snapshot cleared as well.
\<close>

theorem logout_always_clears:
  "fst (authStore_logout b a) = Inr () \<and>
   auth_state.isAuthenticated (authStore (snd (authStore_logout b a))) = False \<and>
   auth_state.user (authStore (snd (authStore_logout b a))) = None \<and>
   auth_state.token (authStore (snd (authStore_logout b a))) = None \<and>
   auth_state.refreshToken (authStore (snd (authStore_logout b a))) = RefreshValue None \<and>
   getItem ''accessToken'' (snd (authStore_logout b a)) = None \<and>
   getItem ''refreshToken'' (snd (authStore_logout b a)) = None \<and>
   getItem ''user'' (snd (authStore_logout b a)) = None \<and>
   authStorage (snd (authStore_logout b a)) =
     Some \<lparr>persisted_auth.user = None, persisted_auth.token = None,
           persisted_auth.refreshToken = None, persisted_auth.isAuthenticated = False\<rparr>"
  using logout_cleared[of b a]
  by (simp add: logout_fst logout_authStore logout_authStorage signed_out_def
        partialize_def credentials_cleared_def)

text \<open>
  Claim C4, evaluated on a signed-in session: \<open>login\<close> has put the refresh token
  \<open>r1\<close> in the slot and in storage, and the backend is unreachable. The object of the
  store has the key \<open>refreshToken\<close> twice, so on this session the slot holds the
  token and \<open>refreshToken()\<close> called on the store is a type error: nothing is sent and
  nothing is cleared. The action itself can still be run by a caller that took it from
  the store before \<open>login\<close>. Its refresh call then fails at the network level; the
  action re-raises that error and clears the store and the persisted snapshot, but the
  storage keys \<open>accessToken\<close> and \<open>refreshToken\<close>, which \<open>login\<close> wrote and which
  \<open>logout\<close> and the interceptor's \<open>clearTokens\<close> remove, are still there.
\<close>

theorem refreshToken_failure_keeps_stored_tokens:
  "auth_state.refreshToken (authStore signed_in_app) = RefreshValue (Some ''r1'') \<and>
   getItem ''accessToken'' signed_in_app = Some ''t1'' \<and>
   getItem ''refreshToken'' signed_in_app = Some ''r1'' \<and>
   authStore_refreshToken offline_backend signed_in_app =
     (Inl (TypeError ''refreshToken is not a function''), signed_in_app) \<and>
   fst (refreshToken_action offline_backend signed_in_app) =
     Inl (Axios \<lparr>config =
                    \<lparr>verb = POST, url = ''/api/v1/auth/refresh'',
                     request.data = RefreshData (Some ''r1''),
                     authorization = Some ''Bearer t1'', retry = False\<rparr>,
                  response = None, message = ''Network Error''\<rparr>) \<and>
   authStore (snd (refreshToken_action offline_backend signed_in_app)) =
     \<lparr>auth_state.user = None, auth_state.token = None,
      auth_state.refreshToken = RefreshValue None, auth_state.isAuthenticated = False,
      auth_state.isLoading = False\<rparr> \<and>
   authStorage (snd (refreshToken_action offline_backend signed_in_app)) =
     Some \<lparr>persisted_auth.user = None, persisted_auth.token = None,
           persisted_auth.refreshToken = None, persisted_auth.isAuthenticated = False\<rparr> \<and>
   getItem ''accessToken'' (snd (refreshToken_action offline_backend signed_in_app)) =
     Some ''t1'' \<and>
   getItem ''refreshToken'' (snd (refreshToken_action offline_backend signed_in_app)) =
     Some ''r1'' \<and>
   \<not> credentials_cleared (snd (refreshToken_action offline_backend signed_in_app))"
proof -
  have rt: "auth_state.refreshToken (authStore signed_in_app) = RefreshValue (Some ''r1'')"
    by (simp add: signed_in_def)
  have tr: "slot_truthy (auth_state.refreshToken (authStore signed_in_app))"
    by (simp add: signed_in_def)
  have m: "authStore_refreshToken offline_backend signed_in_app =
     (Inl (TypeError ''refreshToken is not a function''), signed_in_app)"
    by (rule refreshToken_not_callable[OF rt])
  have f: "fst (api_post offline_backend (refreshH offline_backend) ''/auth/refresh''
             (RefreshData (slot_json (auth_state.refreshToken (authStore signed_in_app))))
             signed_in_app) =
     Inl (Axios \<lparr>config =
                    \<lparr>verb = POST, url = ''/api/v1/auth/refresh'',
                     request.data = RefreshData (Some ''r1''),
                     authorization = Some ''Bearer t1'', retry = False\<rparr>,
                  response = None, message = ''Network Error''\<rparr>)"
    by (simp add: offline_refresh request_interceptor_def signed_in_def)
  note F = refreshToken_action_failure[OF tr f]
  have l: "localStorage (snd (refreshToken_action offline_backend signed_in_app)) =
      localStorage signed_in_app"
    unfolding F(3) by (simp add: offline_refresh)
  have g: "getItem ''accessToken'' (snd (refreshToken_action offline_backend signed_in_app)) =
     Some ''t1''"
     "getItem ''refreshToken'' (snd (refreshToken_action offline_backend signed_in_app)) =
     Some ''r1''"
    using signed_in_app_simps(3,4) unfolding getItem_def l by simp_all
  have s: "authStore (snd (refreshToken_action offline_backend signed_in_app)) =
     \<lparr>auth_state.user = None, auth_state.token = None,
      auth_state.refreshToken = RefreshValue None, auth_state.isAuthenticated = False,
      auth_state.isLoading = False\<rparr>"
    unfolding F(2) by (simp add: signed_in_def)
  have n: "\<not> credentials_cleared (snd (refreshToken_action offline_backend signed_in_app))"
    by (simp add: credentials_cleared_def g)
  from rt m F(1) F(4) g s n show ?thesis
    by simp
qed

text \<open>
  The call on the store reaches the network only while the slot still holds the
  action, as in the initial state. The guard passes, the request body is the empty
  object, and when the backend is unreachable the action re-raises the error and puts
  \<open>null\<close> in the slot, so that every later call on the store is a type error.
\<close>

lemma refreshToken_initial_call_offline:
  "fst (authStore_refreshToken offline_backend fresh_app) =
     Inl (Axios \<lparr>config =
                    \<lparr>verb = POST, url = ''/api/v1/auth/refresh'',
                     request.data = RefreshData None,
                     authorization = None, retry = False\<rparr>,
                  response = None, message = ''Network Error''\<rparr>) \<and>
   auth_state.refreshToken
     (authStore (snd (authStore_refreshToken offline_backend fresh_app))) =
     RefreshValue None \<and>
   fst (authStore_refreshToken offline_backend
          (snd (authStore_refreshToken offline_backend fresh_app))) =
     Inl (TypeError ''refreshToken is not a function'')"
proof -
  have rt: "auth_state.refreshToken (authStore fresh_app) = RefreshAction"
    by (simp add: fresh_app_def initial_auth_state_def)
  have tr: "slot_truthy (auth_state.refreshToken (authStore fresh_app))"
    by (simp add: rt)
  have f: "fst (api_post offline_backend (refreshH offline_backend) ''/auth/refresh''
             (RefreshData (slot_json (auth_state.refreshToken (authStore fresh_app))))
             fresh_app) =
     Inl (Axios \<lparr>config =
                    \<lparr>verb = POST, url = ''/api/v1/auth/refresh'',
                     request.data = RefreshData None,
                     authorization = None, retry = False\<rparr>,
                  response = None, message = ''Network Error''\<rparr>)"
    by (simp add: offline_refresh request_interceptor_def getItem_def fresh_app_def
          initial_auth_state_def)
  note F = refreshToken_action_failure(1,2)[OF tr f]
  have s: "auth_state.refreshToken
     (authStore (snd (authStore_refreshToken offline_backend fresh_app))) =
     RefreshValue None"
    by (simp add: refreshToken_callable[OF rt] F(2))
  from F(1) s refreshToken_not_callable[OF s, of offline_backend] show ?thesis
    by (simp add: refreshToken_callable[OF rt])
qed

text \<open>
  Claim C8. When the authentication call of \<open>login\<close> fails, \<open>login\<close> raises that
  same error, and the identity, the token, the refresh token and \<open>isAuthenticated\<close>
  are what they were before the call; \<open>isLoading\<close> is false.
\<close>

theorem login_failure_keeps_session:
  assumes "fst (api_login b (login_request.email credentials)
             (login_request.password credentials)
             (set_auth (\<lambda>s. s\<lparr>auth_state.isLoading := True\<rparr>) a)) = Inl err"
  shows "fst (authStore_login b credentials a) = Inl err \<and>
         auth_state.user (authStore (snd (authStore_login b credentials a))) =
           auth_state.user (authStore a) \<and>
         auth_state.token (authStore (snd (authStore_login b credentials a))) =
           auth_state.token (authStore a) \<and>
         auth_state.refreshToken (authStore (snd (authStore_login b credentials a))) =
           auth_state.refreshToken (authStore a) \<and>
         auth_state.isAuthenticated (authStore (snd (authStore_login b credentials a))) =
           auth_state.isAuthenticated (authStore a) \<and>
         auth_state.isLoading (authStore (snd (authStore_login b credentials a))) = False"
  using login_failure[OF assms] by simp

text \<open>A failed login on a signed-in session: the session is still the one that was there.\<close>

theorem login_failure_keeps_session_witness:
  "fst (api_login offline_backend (login_request.email alice_login)
         (login_request.password alice_login)
         (set_auth (\<lambda>s. s\<lparr>auth_state.isLoading := True\<rparr>) signed_in_app)) =
     Inl (Axios \<lparr>config =
                    \<lparr>verb = POST, url = ''/api/v1/auth/login'',
                     request.data = LoginData ''alice@example.org'' ''secret'',
                     authorization = Some ''Bearer t1'', retry = False\<rparr>,
                  response = None, message = ''Network Error''\<rparr>) \<and>
   fst (authStore_login offline_backend alice_login signed_in_app) =
     Inl (Axios \<lparr>config =
                    \<lparr>verb = POST, url = ''/api/v1/auth/login'',
                     request.data = LoginData ''alice@example.org'' ''secret'',
                     authorization = Some ''Bearer t1'', retry = False\<rparr>,
                  response = None, message = ''Network Error''\<rparr>) \<and>
   auth_state.user (authStore (snd (authStore_login offline_backend alice_login signed_in_app))) =
     Some alice \<and>
   auth_state.token (authStore (snd (authStore_login offline_backend alice_login signed_in_app))) =
     Some ''t1'' \<and>
   auth_state.refreshToken
     (authStore (snd (authStore_login offline_backend alice_login signed_in_app))) =
     RefreshValue (Some ''r1'') \<and>
   auth_state.isAuthenticated
     (authStore (snd (authStore_login offline_backend alice_login signed_in_app))) = True \<and>
   auth_state.isLoading
     (authStore (snd (authStore_login offline_backend alice_login signed_in_app))) = False"
proof -
  have h: "fst (api_login offline_backend (login_request.email alice_login)
         (login_request.password alice_login)
         (set_auth (\<lambda>s. s\<lparr>auth_state.isLoading := True\<rparr>) signed_in_app)) =
     Inl (Axios \<lparr>config =
                    \<lparr>verb = POST, url = ''/api/v1/auth/login'',
                     request.data = LoginData ''alice@example.org'' ''secret'',
                     authorization = Some ''Bearer t1'', retry = False\<rparr>,
                  response = None, message = ''Network Error''\<rparr>)"
    by (simp add: offline_login alice_login_def request_interceptor_def)
  from login_failure_keeps_session[OF h] h show ?thesis
    by (simp add: signed_in_def)
qed

section \<open>Results on the user store\<close>

text \<open>
  Claim C5, as amended. When the creation call of \<open>createUser\<close> is fulfilled with a
  record, \<open>createUser\<close> returns normally and the collection is the prior collection
  with that record appended after all the records that were there. The records with
  the new record's id are then one more than before: there is exactly one iff no
  record of the prior collection had that id.
\<close>

theorem createUser_appends:
  assumes "fst (api_createUser b userData
             (set_users (\<lambda>s. s\<lparr>user_state.isLoading := True, user_state.error := None\<rparr>) a)) =
           Inr resp"
  shows "fst (userStore_createUser b userData a) = Inr () \<and>
         users (userStore (snd (userStore_createUser b userData a))) =
           users (userStore a) @ [body.data resp] \<and>
         length (filter (\<lambda>u. user.userId u = user.userId (body.data resp))
                   (users (userStore (snd (userStore_createUser b userData a))))) =
           Suc (length (filter (\<lambda>u. user.userId u = user.userId (body.data resp))
                          (users (userStore a)))) \<and>
         (length (filter (\<lambda>u. user.userId u = user.userId (body.data resp))
                    (users (userStore (snd (userStore_createUser b userData a))))) = 1) =
           (user.userId (body.data resp) \<notin> user.userId ` set (users (userStore a)))"
proof -
  note F = createUser_success[OF assms]
  have "(filter (\<lambda>u. user.userId u = user.userId (body.data resp)) (users (userStore a)) = []) =
        (user.userId (body.data resp) \<notin> user.userId ` set (users (userStore a)))"
    by (auto simp add: filter_empty_conv image_iff)
  with F show ?thesis by simp
qed

text \<open>A record with a new id, appended to a collection of one: it is the only one with its id.\<close>

theorem createUser_appends_witness:
  "fst (api_createUser (user_backend bob) new_bob
          (set_users (\<lambda>s. s\<lparr>user_state.isLoading := True, user_state.error := None\<rparr>)
             (with_users [carol] None))) =
     Inr \<lparr>body.data = bob, body.accessToken = None\<rparr> \<and>
   fst (userStore_createUser (user_backend bob) new_bob (with_users [carol] None)) = Inr () \<and>
   users (userStore (snd (userStore_createUser (user_backend bob) new_bob
                            (with_users [carol] None)))) = [carol, bob] \<and>
   length (filter (\<lambda>u. user.userId u = ''u7'')
             (users (userStore (snd (userStore_createUser (user_backend bob) new_bob
                                      (with_users [carol] None)))))) = 1"
proof -
  have h: "fst (api_createUser (user_backend bob) new_bob
          (set_users (\<lambda>s. s\<lparr>user_state.isLoading := True, user_state.error := None\<rparr>)
             (with_users [carol] None))) =
     Inr \<lparr>body.data = bob, body.accessToken = None\<rparr>"
    by (rule user_backend_createUser)
  from createUser_appends[OF h] h show ?thesis
    by (simp add: bob_def carol_def)
qed

text \<open>
  Claim C5 as stated fails for a prior collection that already holds a record with the
  returned id: the record is appended all the same, and the collection then holds two
  records with that id.
\<close>

theorem createUser_duplicate_id_counterexample:
  "fst (api_createUser (user_backend bob) new_bob
          (set_users (\<lambda>s. s\<lparr>user_state.isLoading := True, user_state.error := None\<rparr>)
             (with_users [bob] None))) =
     Inr \<lparr>body.data = bob, body.accessToken = None\<rparr> \<and>
   user.userId bob = ''u7'' \<and>
   fst (userStore_createUser (user_backend bob) new_bob (with_users [bob] None)) = Inr () \<and>
   users (userStore (snd (userStore_createUser (user_backend bob) new_bob
                            (with_users [bob] None)))) = [bob, bob] \<and>
   length (filter (\<lambda>u. user.userId u = ''u7'')
             (users (userStore (snd (userStore_createUser (user_backend bob) new_bob
                                      (with_users [bob] None)))))) = 2"
proof -
  have h: "fst (api_createUser (user_backend bob) new_bob
          (set_users (\<lambda>s. s\<lparr>user_state.isLoading := True, user_state.error := None\<rparr>)
             (with_users [bob] None))) =
     Inr \<lparr>body.data = bob, body.accessToken = None\<rparr>"
    by (rule user_backend_createUser)
  from createUser_success[OF h] h show ?thesis
    by (simp add: bob_def)
qed

text \<open>
  Claim C6. When the update call of \<open>updateUser\<close> for the id \<open>uid\<close> is fulfilled with a
  record, \<open>updateUser\<close> returns normally; the collection keeps its length, and at
  every position holds the returned record if the record that was there had the id
  \<open>uid\<close>, and the record that was there otherwise; the current slot holds the
  returned record if it held a record with the id \<open>uid\<close>, and is unchanged
  otherwise.
\<close>

theorem updateUser_replaces_in_place:
  assumes "fst (api_updateUser b uid userData
             (set_users (\<lambda>s. s\<lparr>user_state.isLoading := True, user_state.error := None\<rparr>) a)) =
           Inr resp"
  shows "fst (userStore_updateUser b uid userData a) = Inr () \<and>
         length (users (userStore (snd (userStore_updateUser b uid userData a)))) =
           length (users (userStore a)) \<and>
         (\<forall>i < length (users (userStore a)).
            users (userStore (snd (userStore_updateUser b uid userData a))) ! i =
              (if user.userId (users (userStore a) ! i) = uid then body.data resp
               else users (userStore a) ! i)) \<and>
         currentUser (userStore (snd (userStore_updateUser b uid userData a))) =
           (case currentUser (userStore a) of
              None \<Rightarrow> None
            | Some c \<Rightarrow> if user.userId c = uid then Some (body.data resp) else Some c)"
  using updateUser_success[OF assms] by simp

text \<open>
  An update of the second of three records, which is also the current one: the second
  position and the current slot hold the returned record, the others are as they were.
\<close>

theorem updateUser_replaces_in_place_witness:
  "fst (api_updateUser (user_backend robert) ''u7'' rename_to_robert
          (set_users (\<lambda>s. s\<lparr>user_state.isLoading := True, user_state.error := None\<rparr>)
             (with_users [carol, bob, carol] (Some bob)))) =
     Inr \<lparr>body.data = robert, body.accessToken = None\<rparr> \<and>
   fst (userStore_updateUser (user_backend robert) ''u7'' rename_to_robert
          (with_users [carol, bob, carol] (Some bob))) = Inr () \<and>
   users (userStore (snd (userStore_updateUser (user_backend robert) ''u7'' rename_to_robert
                            (with_users [carol, bob, carol] (Some bob))))) =
     [carol, robert, carol] \<and>
   currentUser (userStore (snd (userStore_updateUser (user_backend robert) ''u7''
                                  rename_to_robert
                                  (with_users [carol, bob, carol] (Some bob))))) =
     Some robert"
proof -
  let ?after = "users (userStore (snd (userStore_updateUser (user_backend robert) ''u7''
                  rename_to_robert (with_users [carol, bob, carol] (Some bob)))))"
  have h: "fst (api_updateUser (user_backend robert) ''u7'' rename_to_robert
          (set_users (\<lambda>s. s\<lparr>user_state.isLoading := True, user_state.error := None\<rparr>)
             (with_users [carol, bob, carol] (Some bob)))) =
     Inr \<lparr>body.data = robert, body.accessToken = None\<rparr>"
    by (rule user_backend_updateUser)
  note T = updateUser_replaces_in_place[OF h]
  have ids: "user.userId carol \<noteq> ''u7''" "user.userId bob = ''u7''"
    by (simp_all add: carol_def bob_def)
  from T have len: "length ?after = 3"
    by simp
  from T have nth: "\<And>i. i < 3 \<Longrightarrow>
      ?after ! i = (if user.userId ([carol, bob, carol] ! i) = ''u7'' then robert
                    else [carol, bob, carol] ! i)"
    by simp
  have "?after ! 0 = carol" "?after ! Suc 0 = robert" "?after ! Suc (Suc 0) = carol"
    using nth[of 0] nth[of "Suc 0"] nth[of "Suc (Suc 0)"] ids by simp_all
  with len have "?after = [carol, robert, carol]"
    by (simp add: list_eq_iff_nth_eq less_Suc_eq numeral_3_eq_3)
  with T h ids show ?thesis
    by simp
qed

section \<open>Results on the authorization store\<close>

text \<open>
  Claim C7. \<open>checkPermission\<close> never raises and changes no store (nor the persisted
  snapshot): when the permission call fails, for whatever reason, it returns false, and
  when the call is fulfilled it returns the \<open>hasPermission\<close> field of the reply.
\<close>

theorem checkPermission_fails_closed:
  "fst (authorizationStore_checkPermission b uid res act a) =
     (case fst (api_checkPermission b uid res act a) of
        Inr resp \<Rightarrow> Inr (hasPermission (body.data resp))
      | Inl err \<Rightarrow> Inr False) \<and>
   (\<exists>v. fst (authorizationStore_checkPermission b uid res act a) = Inr v) \<and>
   authStore (snd (authorizationStore_checkPermission b uid res act a)) = authStore a \<and>
   userStore (snd (authorizationStore_checkPermission b uid res act a)) = userStore a \<and>
   authorizationStore (snd (authorizationStore_checkPermission b uid res act a)) =
     authorizationStore a \<and>
   authStorage (snd (authorizationStore_checkPermission b uid res act a)) = authStorage a"
  by (auto simp add: authorizationStore_checkPermission_def api_checkPermission_def log_def
        split: prod.splits sum.splits
        dest!: api_frames
        dest: frame_authStore frame_userStore frame_authorizationStore frame_authStorage)

text \<open>
  The permission check against an unreachable backend, which gives false, and against
  a backend that grants the permission, which gives true; the store is untouched.
\<close>

theorem checkPermission_fails_closed_witness:
  "fst (authorizationStore_checkPermission offline_backend ''u7'' ''users'' ''read'' cached_app) =
     Inr False \<and>
   fst (authorizationStore_checkPermission granting_backend ''u7'' ''users'' ''read'' cached_app) =
     Inr True \<and>
   authorizationStore
     (snd (authorizationStore_checkPermission offline_backend ''u7'' ''users'' ''read''
             cached_app)) = cached_authorization \<and>
   authorizationStore
     (snd (authorizationStore_checkPermission granting_backend ''u7'' ''users'' ''read''
             cached_app)) = cached_authorization"
  using checkPermission_fails_closed[of offline_backend "''u7''" "''users''" "''read''" cached_app]
    checkPermission_fails_closed[of granting_backend "''u7''" "''users''" "''read''" cached_app]
  by (simp add: check_offline check_granted read_users_granted_def)

text \<open>
  Claim C9, as amended. Every operation of the user store (\<open>fetchUsers\<close>,
  \<open>fetchUserById\<close>, \<open>createUser\<close>, \<open>updateUser\<close>, \<open>deleteUser\<close>) and the operations
  \<open>fetchRoles\<close>, \<open>fetchPermissions\<close>, \<open>createRole\<close> and \<open>createPermission\<close> of the
  authorization store begin with a state change that sets \<open>isLoading\<close> to true and
  \<open>error\<close> to null: it is the first event of the operation, before any request is
  sent. \<open>assignRole\<close>, \<open>revokeRole\<close>, \<open>fetchUserRoles\<close> and \<open>fetchUserPermissions\<close>
  leave \<open>isLoading\<close> and \<open>error\<close> as they were.
\<close>

theorem loading_and_error_reset_first:
  "(\<exists>es. trace (snd (userStore_fetchUsers b a)) =
          trace a @
          SetUsers ((userStore a)\<lparr>user_state.isLoading := True, user_state.error := None\<rparr>) #
          es) \<and>
   (\<exists>es. trace (snd (userStore_fetchUserById b uid a)) =
          trace a @
          SetUsers ((userStore a)\<lparr>user_state.isLoading := True, user_state.error := None\<rparr>) #
          es) \<and>
   (\<exists>es. trace (snd (userStore_createUser b userData a)) =
          trace a @
          SetUsers ((userStore a)\<lparr>user_state.isLoading := True, user_state.error := None\<rparr>) #
          es) \<and>
   (\<exists>es. trace (snd (userStore_updateUser b uid partialData a)) =
          trace a @
          SetUsers ((userStore a)\<lparr>user_state.isLoading := True, user_state.error := None\<rparr>) #
          es) \<and>
   (\<exists>es. trace (snd (userStore_deleteUser b uid a)) =
          trace a @
          SetUsers ((userStore a)\<lparr>user_state.isLoading := True, user_state.error := None\<rparr>) #
          es) \<and>
   (\<exists>es. trace (snd (authorizationStore_fetchRoles b a)) =
          trace a @
          SetAuthorization
            ((authorizationStore a)\<lparr>authorization_state.isLoading := True,
                                     authorization_state.error := None\<rparr>) #
          es) \<and>
   (\<exists>es. trace (snd (authorizationStore_fetchPermissions b a)) =
          trace a @
          SetAuthorization
            ((authorizationStore a)\<lparr>authorization_state.isLoading := True,
                                     authorization_state.error := None\<rparr>) #
          es) \<and>
   (\<exists>es. trace (snd (authorizationStore_createRole b roleData a)) =
          trace a @
          SetAuthorization
            ((authorizationStore a)\<lparr>authorization_state.isLoading := True,
                                     authorization_state.error := None\<rparr>) #
          es) \<and>
   (\<exists>es. trace (snd (authorizationStore_createPermission b permissionData a)) =
          trace a @
          SetAuthorization
            ((authorizationStore a)\<lparr>authorization_state.isLoading := True,
                                     authorization_state.error := None\<rparr>) #
          es) \<and>
   authorization_state.isLoading
     (authorizationStore (snd (authorizationStore_assignRole b uid rid a))) =
     authorization_state.isLoading (authorizationStore a) \<and>
   authorization_state.error
     (authorizationStore (snd (authorizationStore_assignRole b uid rid a))) =
     authorization_state.error (authorizationStore a) \<and>
   authorization_state.isLoading
     (authorizationStore (snd (authorizationStore_revokeRole b uid rid a))) =
     authorization_state.isLoading (authorizationStore a) \<and>
   authorization_state.error
     (authorizationStore (snd (authorizationStore_revokeRole b uid rid a))) =
     authorization_state.error (authorizationStore a) \<and>
   authorization_state.isLoading
     (authorizationStore (snd (authorizationStore_fetchUserRoles b uid a))) =
     authorization_state.isLoading (authorizationStore a) \<and>
   authorization_state.error
     (authorizationStore (snd (authorizationStore_fetchUserRoles b uid a))) =
     authorization_state.error (authorizationStore a) \<and>
   authorization_state.isLoading
     (authorizationStore (snd (authorizationStore_fetchUserPermissions b uid a))) =
     authorization_state.isLoading (authorizationStore a) \<and>
   authorization_state.error
     (authorizationStore (snd (authorizationStore_fetchUserPermissions b uid a))) =
     authorization_state.error (authorizationStore a)"
  using first_set_users[OF fetchUsers_extends, of b a]
    first_set_users[OF fetchUserById_extends, of b uid a]
    first_set_users[OF createUser_extends, of b userData a]
    first_set_users[OF updateUser_extends, of b uid partialData a]
    first_set_users[OF deleteUser_extends, of b uid a]
    first_set_authorization[OF fetchRoles_extends, of b a]
    first_set_authorization[OF fetchPermissions_extends, of b a]
    first_set_authorization[OF createRole_extends, of b roleData a]
    first_set_authorization[OF createPermission_extends, of b permissionData a]
    assignRole_pending[of b uid rid a] revokeRole_pending[of b uid rid a]
    fetchUserRoles_pending[of b uid a] fetchUserPermissions_pending[of b uid a]
  by (simp only: simp_thms)

text \<open>
  Claim C9 as stated fails for \<open>assignRole\<close>: on a store whose last error is still
  recorded, the first and only state change of a fulfilled \<open>assignRole\<close> comes after
  both requests, and it leaves \<open>isLoading\<close> false and the old error in place.
\<close>

theorem assignRole_sets_no_loading_counterexample:
  "authorization_state.isLoading (authorizationStore cached_app) = False \<and>
   authorization_state.error (authorizationStore cached_app) = Some ''Failed to fetch roles'' \<and>
   fst (authorizationStore_assignRole roles_backend ''u7'' ''r-admin'' cached_app) = Inr () \<and>
   trace (snd (authorizationStore_assignRole roles_backend ''u7'' ''r-admin'' cached_app)) =
     [Sent assign_request, Sent roles_request,
      SetAuthorization
        (cached_authorization
           \<lparr>userRoles := (userRoles cached_authorization)(''u7'' \<mapsto> [viewer, admin])\<rparr>),
      ToastSuccess ''Role assigned successfully!''] \<and>
   authorization_state.isLoading
     (cached_authorization
        \<lparr>userRoles := (userRoles cached_authorization)(''u7'' \<mapsto> [viewer, admin])\<rparr>) =
     False \<and>
   authorization_state.error
     (cached_authorization
        \<lparr>userRoles := (userRoles cached_authorization)(''u7'' \<mapsto> [viewer, admin])\<rparr>) =
     Some ''Failed to fetch roles''"
proof -
  have v: "voidH roles_backend = void_ok" and r: "rolesH roles_backend = roles_ok"
    by (simp_all add: roles_backend_def)
  have s: "authorization_state.isLoading cached_authorization = False"
    "authorization_state.error cached_authorization = Some ''Failed to fetch roles''"
    by (simp_all add: cached_authorization_def initial_authorization_state_def)
  have f: "authorizationStore_fetchUserRoles roles_backend ''u7''
             ((log (Sent assign_request) cached_app)\<lparr>server := ()\<rparr>) =
     (Inr (),
      set_authorization (\<lambda>s. s\<lparr>userRoles := (userRoles s)(''u7'' \<mapsto> [viewer, admin])\<rparr>)
        ((log (Sent roles_request) ((log (Sent assign_request) cached_app)\<lparr>server := ()\<rparr>))
           \<lparr>server := ()\<rparr>))"
    by (simp add: authorizationStore_fetchUserRoles_def roles_fulfilled[OF r])
  have "authorizationStore_assignRole roles_backend ''u7'' ''r-admin'' cached_app =
     (Inr (),
      log (ToastSuccess ''Role assigned successfully!'')
        (set_authorization (\<lambda>s. s\<lparr>userRoles := (userRoles s)(''u7'' \<mapsto> [viewer, admin])\<rparr>)
           ((log (Sent roles_request) ((log (Sent assign_request) cached_app)\<lparr>server := ()\<rparr>))
              \<lparr>server := ()\<rparr>)))"
    by (simp add: authorizationStore_assignRole_def assign_cached[OF v] f)
  with s show ?thesis
    by (simp add: set_authorization_def)
qed

text \<open>
  Claim C10. When the roles call of \<open>fetchUserRoles\<close>, or the permissions call of
  \<open>fetchUserPermissions\<close>, fails, the operation returns normally and the authorization
  store is exactly what it was: no error recorded, the caches untouched. So when the
  server call of \<open>assignRole\<close> or \<open>revokeRole\<close> is fulfilled and the roles call that
  follows it fails, the operation returns normally, its last event is the success
  notification, and the store, with the user's cached roles, is what it was.
\<close>

theorem role_fetch_failures_swallowed:
  "(fst (api_getUserRoles b uid a) = Inl err \<longrightarrow>
      fst (authorizationStore_fetchUserRoles b uid a) = Inr () \<and>
      authorizationStore (snd (authorizationStore_fetchUserRoles b uid a)) =
        authorizationStore a) \<and>
   (fst (api_getUserPermissions b uid a) = Inl err \<longrightarrow>
      fst (authorizationStore_fetchUserPermissions b uid a) = Inr () \<and>
      authorizationStore (snd (authorizationStore_fetchUserPermissions b uid a)) =
        authorizationStore a) \<and>
   (fst (api_assignRole b uid rid a) = Inr resp \<and>
    fst (api_getUserRoles b uid (snd (api_assignRole b uid rid a))) = Inl err \<longrightarrow>
      fst (authorizationStore_assignRole b uid rid a) = Inr () \<and>
      authorizationStore (snd (authorizationStore_assignRole b uid rid a)) =
        authorizationStore a \<and>
      last (trace (snd (authorizationStore_assignRole b uid rid a))) =
        ToastSuccess ''Role assigned successfully!'') \<and>
   (fst (api_revokeRole b uid rid a) = Inr resp \<and>
    fst (api_getUserRoles b uid (snd (api_revokeRole b uid rid a))) = Inl err \<longrightarrow>
      fst (authorizationStore_revokeRole b uid rid a) = Inr () \<and>
      authorizationStore (snd (authorizationStore_revokeRole b uid rid a)) =
        authorizationStore a \<and>
      last (trace (snd (authorizationStore_revokeRole b uid rid a))) =
        ToastSuccess ''Role revoked successfully!'')"
proof -
  have assign: "fst (authorizationStore_assignRole b uid rid a) = Inr () \<and>
      last (trace (snd (authorizationStore_assignRole b uid rid a))) =
        ToastSuccess ''Role assigned successfully!''"
    if "fst (api_assignRole b uid rid a) = Inr resp"
    using that fetchUserRoles_fst[of b uid "snd (api_assignRole b uid rid a)"]
    by (auto simp add: authorizationStore_assignRole_def split: prod.splits sum.splits)
  have revoke: "fst (authorizationStore_revokeRole b uid rid a) = Inr () \<and>
      last (trace (snd (authorizationStore_revokeRole b uid rid a))) =
        ToastSuccess ''Role revoked successfully!''"
    if "fst (api_revokeRole b uid rid a) = Inr resp"
    using that fetchUserRoles_fst[of b uid "snd (api_revokeRole b uid rid a)"]
    by (auto simp add: authorizationStore_revokeRole_def split: prod.splits sum.splits)
  show ?thesis
    using assign revoke
    by (simp add: fetchUserRoles_fst fetchUserPermissions_fst fetchUserRoles_store
          fetchUserPermissions_store assignRole_store revokeRole_store
          authorizationStore_api_assignRole authorizationStore_api_revokeRole)
qed

text \<open>
  A backend that fulfils the assignment and the revocation but not the roles call: both
  operations succeed and notify success, and the user's cached roles are the stale ones.
\<close>

theorem role_fetch_failures_swallowed_witness:
  "fst (api_getUserRoles assign_only_backend ''u7'' cached_app) =
     Inl (network_error roles_request) \<and>
   fst (authorizationStore_fetchUserRoles assign_only_backend ''u7'' cached_app) = Inr () \<and>
   authorizationStore (snd (authorizationStore_fetchUserRoles assign_only_backend ''u7'' cached_app)) =
     cached_authorization \<and>
   fst (api_getUserPermissions assign_only_backend ''u7'' cached_app) =
     Inl (network_error permissions_request) \<and>
   fst (authorizationStore_fetchUserPermissions assign_only_backend ''u7'' cached_app) = Inr () \<and>
   authorizationStore
     (snd (authorizationStore_fetchUserPermissions assign_only_backend ''u7'' cached_app)) =
     cached_authorization \<and>
   fst (api_assignRole assign_only_backend ''u7'' ''r-admin'' cached_app) =
     Inr \<lparr>body.data = (), body.accessToken = None\<rparr> \<and>
   fst (api_getUserRoles assign_only_backend ''u7''
          (snd (api_assignRole assign_only_backend ''u7'' ''r-admin'' cached_app))) =
     Inl (network_error roles_request) \<and>
   fst (authorizationStore_assignRole assign_only_backend ''u7'' ''r-admin'' cached_app) =
     Inr () \<and>
   userRoles
     (authorizationStore
        (snd (authorizationStore_assignRole assign_only_backend ''u7'' ''r-admin'' cached_app)))
     ''u7'' = Some [viewer] \<and>
   last (trace (snd (authorizationStore_assignRole assign_only_backend ''u7'' ''r-admin''
                       cached_app))) =
     ToastSuccess ''Role assigned successfully!'' \<and>
   fst (api_revokeRole assign_only_backend ''u7'' ''r-admin'' cached_app) =
     Inr \<lparr>body.data = (), body.accessToken = None\<rparr> \<and>
   fst (api_getUserRoles assign_only_backend ''u7''
          (snd (api_revokeRole assign_only_backend ''u7'' ''r-admin'' cached_app))) =
     Inl (network_error roles_request) \<and>
   fst (authorizationStore_revokeRole assign_only_backend ''u7'' ''r-admin'' cached_app) =
     Inr () \<and>
   userRoles
     (authorizationStore
        (snd (authorizationStore_revokeRole assign_only_backend ''u7'' ''r-admin'' cached_app)))
     ''u7'' = Some [viewer] \<and>
   last (trace (snd (authorizationStore_revokeRole assign_only_backend ''u7'' ''r-admin''
                       cached_app))) =
     ToastSuccess ''Role revoked successfully!''"
proof -
  have v: "voidH assign_only_backend = void_ok"
    and r: "rolesH assign_only_backend = rolesH offline_backend"
    and p: "permissionsH assign_only_backend = permissionsH offline_backend"
    by (simp_all add: assign_only_backend_def)
  have h1: "fst (api_getUserRoles assign_only_backend ''u7'' cached_app) =
     Inl (network_error roles_request)"
    by (simp add: roles_offline[OF r])
  have h2: "fst (api_getUserPermissions assign_only_backend ''u7'' cached_app) =
     Inl (network_error permissions_request)"
    by (simp add: permissions_offline[OF p])
  have h3: "fst (api_assignRole assign_only_backend ''u7'' ''r-admin'' cached_app) =
     Inr \<lparr>body.data = (), body.accessToken = None\<rparr>"
    by (simp add: assign_cached[OF v])
  have h4: "fst (api_getUserRoles assign_only_backend ''u7''
          (snd (api_assignRole assign_only_backend ''u7'' ''r-admin'' cached_app))) =
     Inl (network_error roles_request)"
    by (simp add: assign_cached[OF v] roles_offline[OF r])
  have h5: "fst (api_revokeRole assign_only_backend ''u7'' ''r-admin'' cached_app) =
     Inr \<lparr>body.data = (), body.accessToken = None\<rparr>"
    by (simp add: revoke_cached[OF v])
  have h6: "fst (api_getUserRoles assign_only_backend ''u7''
          (snd (api_revokeRole assign_only_backend ''u7'' ''r-admin'' cached_app))) =
     Inl (network_error roles_request)"
    by (simp add: revoke_cached[OF v] roles_offline[OF r])
  have c: "userRoles cached_authorization ''u7'' = Some [viewer]"
    by (simp add: cached_authorization_def)
  note T1 = role_fetch_failures_swallowed
              [of assign_only_backend "''u7''" cached_app "network_error roles_request"
                  "''r-admin''" "\<lparr>body.data = (), body.accessToken = None\<rparr>"]
  note T2 = role_fetch_failures_swallowed
              [of assign_only_backend "''u7''" cached_app "network_error permissions_request"
                  "''r-admin''" "\<lparr>body.data = (), body.accessToken = None\<rparr>"]
  from T1 T2 h1 h2 h3 h4 h5 h6 c show ?thesis
    by simp
qed

end
